theory Spec2Isabelle
  imports Main "HOL-Library.Sublist"
begin

section \<open>JavaScript values\<close>

text \<open>
  CourtEase is an Express application (\<^verbatim>\<open>src/app.js\<close>). The file holds two versions of the
  backend: the first route set (lines 1-1097) and a second route set (lines 1098-1510).
  Request bodies, JSON responses, Firestore documents and the records of \<^verbatim>\<open>MOCK_DB.users\<close>
  are JavaScript objects, modelled by one datatype of values. An object is the list of its
  properties in insertion order. Numbers are integers (the code only ever writes \<open>0\<close>).
  A string is the list of the bytes of its UTF-8 encoding, so a character beyond U+007F
  takes two to four bytes; the patterns that the code searches for and the texts that it
  appends are all 7-bit, for which searching, replacing and appending on the bytes agree
  with the same operations on the characters.
  \<open>JServerTimestamp\<close> and \<open>JArrayUnion\<close> stand for the Firestore sentinels
  \<^verbatim>\<open>FieldValue.serverTimestamp()\<close> and \<^verbatim>\<open>FieldValue.arrayUnion(v)\<close>.
\<close>

datatype jsval =
    JUndefined
  | JNull
  | JBool bool
  | JNum int
  | JStr string
  | JArr "jsval list"
  | JObj "(string \<times> jsval) list"
  | JServerTimestamp
  | JArrayUnion jsval

type_synonym document = "(string \<times> jsval) list"

text \<open>Property read \<^verbatim>\<open>v.k\<close> on a value that is neither \<^verbatim>\<open>null\<close> nor
  \<^verbatim>\<open>undefined\<close>: a missing property reads as \<^verbatim>\<open>undefined\<close>. Where the source reads a
  property of a possibly nullish value without \<^verbatim>\<open>?.\<close>, the model checks \<open>nullish\<close> first
  and throws.\<close>

fun js_prop :: "jsval \<Rightarrow> string \<Rightarrow> jsval" where
  "js_prop (JObj fs) k = (case map_of fs k of Some v \<Rightarrow> v | None \<Rightarrow> JUndefined)"
| "js_prop v k = JUndefined"

fun nullish :: "jsval \<Rightarrow> bool" where
  "nullish JUndefined = True"
| "nullish JNull = True"
| "nullish v = False"

text \<open>Optional chaining \<^verbatim>\<open>v?.k\<close>.\<close>

definition opt_prop :: "jsval option \<Rightarrow> string \<Rightarrow> jsval" where
  "opt_prop d k = (case d of None \<Rightarrow> JUndefined | Some fs \<Rightarrow> js_prop fs k)"

text \<open>JavaScript truthiness, as used by \<^verbatim>\<open>if (x)\<close>, \<^verbatim>\<open>!x\<close> and \<^verbatim>\<open>a || b\<close>.\<close>

fun truthy :: "jsval \<Rightarrow> bool" where
  "truthy JUndefined = False"
| "truthy JNull = False"
| "truthy (JBool b) = b"
| "truthy (JNum n) = (n \<noteq> 0)"
| "truthy (JStr s) = (s \<noteq> [])"
| "truthy v = True"

text \<open>An environment variable or an optional string: absent and empty are both falsy.\<close>

definition configured :: "string option \<Rightarrow> bool" where
  "configured v = (case v of None \<Rightarrow> False | Some s \<Rightarrow> s \<noteq> [])"

text \<open>\<^verbatim>\<open>a || b\<close> where \<open>a\<close> is an optional string and \<open>b\<close> a string.\<close>

definition or_str :: "string option \<Rightarrow> string \<Rightarrow> string" where
  "or_str a b = (case a of None \<Rightarrow> b | Some s \<Rightarrow> if s \<noteq> [] then s else b)"

text \<open>Writing a property: \<^verbatim>\<open>{...o, k: v}\<close> replaces the value of an existing key in place and
  appends a new key.\<close>

fun set_prop :: "document \<Rightarrow> string \<Rightarrow> jsval \<Rightarrow> document" where
  "set_prop [] k v = [(k, v)]"
| "set_prop ((k', v') # fs) k v = (if k' = k then (k, v) # fs else (k', v') # set_prop fs k v)"

definition spread :: "document \<Rightarrow> document \<Rightarrow> document" where
  "spread base extra = foldl (\<lambda>acc kv. set_prop acc (fst kv) (snd kv)) base extra"

subsection \<open>String conversion in template literals\<close>

definition digit_char :: "nat \<Rightarrow> char" where
  "digit_char d = char_of (48 + d)"

function show_nat :: "nat \<Rightarrow> string" where
  "show_nat n = (if n < 10 then [digit_char n] else show_nat (n div 10) @ [digit_char (n mod 10)])"
  by pat_completeness auto
termination
  by (relation "measure (\<lambda>n. n)") auto

declare show_nat.simps [simp del]

definition show_int :: "int \<Rightarrow> string" where
  "show_int i = (if i < 0 then CHR ''-'' # show_nat (nat (- i)) else show_nat (nat i))"

fun join_comma :: "string list \<Rightarrow> string" where
  "join_comma [] = []"
| "join_comma [s] = s"
| "join_comma (s # t # ss) = s @ '','' @ join_comma (t # ss)"

text \<open>\<^verbatim>\<open>`${v}`\<close>: the string conversion of a value. Array elements that are
  \<^verbatim>\<open>null\<close> or \<^verbatim>\<open>undefined\<close> render as the empty string.\<close>

fun js_String :: "jsval \<Rightarrow> string" where
  "js_String JUndefined = ''undefined''"
| "js_String JNull = ''null''"
| "js_String (JBool b) = (if b then ''true'' else ''false'')"
| "js_String (JNum n) = show_int n"
| "js_String (JStr s) = s"
| "js_String (JArr xs) = join_comma (map (\<lambda>x. if nullish x then [] else js_String x) xs)"
| "js_String (JObj fs) = ''[object Object]''"
| "js_String JServerTimestamp = ''[object Object]''"
| "js_String (JArrayUnion v) = ''[object Object]''"

text \<open>
  The conversion can throw. A value that arrived in a JSON request body has no function
  among its properties. For an object the conversion looks up \<^verbatim>\<open>toString\<close>: without an own
  property of that name it finds \<^verbatim>\<open>Object.prototype.toString\<close>, which gives
  \<^verbatim>\<open>[object Object]\<close>; with one, that property is not callable, \<^verbatim>\<open>valueOf\<close> gives no
  primitive either, and the conversion throws a TypeError. An array converts its elements
  in turn, so it throws when one of them does.
\<close>

fun convertible :: "jsval \<Rightarrow> bool" where
  "convertible (JObj fs) = (''toString'' \<notin> set (map fst fs))"
| "convertible (JArr xs) = list_all (\<lambda>x. convertible x) xs"
| "convertible v = True"

section \<open>Errors, external services and the call trace\<close>

text \<open>
  A thrown JavaScript error, with the fields the handlers read: \<^verbatim>\<open>e.message\<close>,
  \<^verbatim>\<open>e.response?.data?.error?.message\<close>, \<^verbatim>\<open>e.code\<close> and \<^verbatim>\<open>e.response?.status\<close>.
\<close>

record js_error =
  e_message :: string
  e_response_message :: "string option"
  e_code :: "string option"
  e_status :: "nat option"

definition TypeError :: "string \<Rightarrow> js_error" where
  "TypeError m = \<lparr>e_message = m, e_response_message = None, e_code = None, e_status = None\<rparr>"

text \<open>\<^verbatim>\<open>`${v}`\<close> for a value \<open>v\<close> of a request body: the string, or the error thrown.\<close>

definition to_string :: "jsval \<Rightarrow> js_error + string" where
  "to_string v =
     (if convertible v then Inr (js_String v)
      else Inl (TypeError ''Cannot convert object to primitive value''))"

text \<open>What is sent to the generative model: a document with its MIME type and the prompt,
  or a prompt alone.\<close>

datatype ai_request = DocumentRequest string string string | TextRequest string

text \<open>One upstream document of the judgment search (\<^verbatim>\<open>d.title\<close>, \<^verbatim>\<open>d.docsource\<close>,
  \<^verbatim>\<open>d.tid\<close> and, in the second route set, \<^verbatim>\<open>r.url\<close>).\<close>

record kanoon_doc =
  kd_title :: jsval
  kd_docsource :: jsval
  kd_tid :: jsval
  kd_url :: jsval

text \<open>
  The configuration (\<^verbatim>\<open>CONFIG\<close>, \<^verbatim>\<open>process.env\<close>, \<^verbatim>\<open>IS_FIREBASE_LIVE\<close>), the clock and the
  answers of the external services. Every service call is a field that maps the arguments
  of the call to its outcome: \<open>Inl e\<close> when the call throws or rejects with \<open>e\<close>, \<open>Inr v\<close>
  when it returns \<open>v\<close>; for calls without a result \<open>Some e\<close> is the error and \<open>None\<close> is
  success. \<open>doc_get\<close> returns \<open>None\<close> for a document that does not exist.
  \<open>sdk_text\<close> is \<^verbatim>\<open>generateContent\<close> followed by \<^verbatim>\<open>result.response.text()\<close>;
  \<open>rest_text\<close> is the
  \<^verbatim>\<open>axios.post\<close> to the model's REST endpoint followed by the extraction of the reply text
  (\<^verbatim>\<open>cand?.content?.[0]?.text || ... || JSON.stringify(r.data)\<close>) and its string conversion.
  \<open>kanoon_search\<close> returns \<open>None\<close> when the reply carries no list to map over.
\<close>

record env =
  IS_FIREBASE_LIVE :: bool
  INDIAN_KANOON_TOKEN :: "string option"
  GEMINI_API_KEY :: "string option"
  EMAIL_USER :: "string option"
  EMAIL_PASS :: "string option"
  NODEMAILER_PASS :: "string option"
  Date_now :: nat
  toISOString :: string
  createUser :: "string \<Rightarrow> string \<Rightarrow> js_error + string"
  updateUser :: "jsval \<Rightarrow> jsval \<Rightarrow> js_error option"
  getUserByEmail :: "string \<Rightarrow> js_error + string"
  createCustomToken :: "string \<Rightarrow> js_error + string"
  verifyIdToken :: "string \<Rightarrow> js_error + jsval"
  signInWithPassword :: "string \<Rightarrow> string \<Rightarrow> js_error + string"
  doc_set :: "string \<Rightarrow> jsval \<Rightarrow> document \<Rightarrow> js_error option"
  doc_update :: "string \<Rightarrow> jsval \<Rightarrow> document \<Rightarrow> js_error option"
  doc_get :: "string \<Rightarrow> jsval \<Rightarrow> js_error + jsval option"
  collection_get :: "string \<Rightarrow> (string \<times> jsval) option \<Rightarrow> js_error + (string \<times> document) list"
  sdk_text :: "string \<Rightarrow> ai_request \<Rightarrow> js_error + string"
  rest_text :: "ai_request \<Rightarrow> js_error + string"
  JSON_parse :: "string \<Rightarrow> js_error + jsval"
  kanoon_search :: "string \<Rightarrow> js_error + kanoon_doc list option"

text \<open>The calls a handler issues to the outside, in order. \<open>EmailSkipped\<close> is the log line
  that \<^verbatim>\<open>sendMail\<close> writes instead of a relay call when the mail credentials are missing.\<close>

datatype event =
    AuthCreateUser string string "string option"
  | AuthUpdateUser jsval jsval
  | AuthGetUserByEmail string
  | AuthCreateCustomToken string
  | AuthVerifyIdToken string
  | IdentitySignIn string string
  | DocSet string jsval document
  | DocUpdate string jsval document
  | DocGet string jsval
  | CollectionGet string
  | GeminiSdk string
  | GeminiRest string
  | KanoonSearch string
  | MailerSendMail jsval string string
  | EmailSkipped jsval string

text \<open>What an Express handler leaves behind: a response with its status code and JSON body,
  or, when an \<^verbatim>\<open>async\<close> handler without \<^verbatim>\<open>try\<close> rejects, no response at all.\<close>

datatype http_result = Responded nat jsval | Unhandled js_error

section \<open>First route set: mail, registration, login, profile\<close>

text \<open>\<^verbatim>\<open>sendMail\<close> (lines 977-993). The relay call sits in a \<^verbatim>\<open>try\<close> whose handler only
  logs, so \<^verbatim>\<open>sendMail\<close> never throws.\<close>

definition sendMail :: "env \<Rightarrow> jsval \<Rightarrow> string \<Rightarrow> string \<Rightarrow> event list" where
  "sendMail env to_addr subject msg =
     (if \<not> configured (EMAIL_USER env) \<or> \<not> configured (EMAIL_PASS env)
      then [EmailSkipped to_addr subject]
      else [MailerSendMail to_addr subject msg])"

definition welcome_html :: "string \<Rightarrow> string \<Rightarrow> string" where
  "welcome_html name role =
     ''<h2>Welcome, '' @ name @ ''!</h2>\<newline>                 <p>Your account has been successfully created as a <b>''
     @ role @ ''</b>.</p>\<newline>                 <p>You can now log in to your dashboard.</p>''"

definition user_profile :: "env \<Rightarrow> string \<Rightarrow> string \<Rightarrow> string \<Rightarrow> document" where
  "user_profile env name email role =
     [(''name'', JStr name), (''email'', JStr email), (''role'', JStr role),
      (''createdAt'', JStr (toISOString env)),
      (''stats'', JObj [(''cases'', JNum 0), (''docs'', JNum 0)])]"

text \<open>\<^verbatim>\<open>registerUser\<close> (lines 85-111). The second argument and the second component of the
  result are \<^verbatim>\<open>MOCK_DB.users\<close> before and after the call.\<close>

definition registerUser ::
  "env \<Rightarrow> jsval list \<Rightarrow> string \<Rightarrow> string \<Rightarrow> string \<Rightarrow> string \<Rightarrow> (jsval \<times> jsval list) \<times> event list" where
  "registerUser env users name email password role =
     (if IS_FIREBASE_LIVE env then
        (case createUser env email password of
           Inl e \<Rightarrow>
             ((JObj [(''success'', JBool False), (''message'', JStr (e_message e))], users),
              [AuthCreateUser email password (Some name)])
         | Inr uid \<Rightarrow>
             (case doc_set env ''users'' (JStr uid) (user_profile env name email role) of
                Some e \<Rightarrow>
                  ((JObj [(''success'', JBool False), (''message'', JStr (e_message e))], users),
                   [AuthCreateUser email password (Some name),
                    DocSet ''users'' (JStr uid) (user_profile env name email role)])
              | None \<Rightarrow>
                  ((JObj [(''success'', JBool True)], users),
                   [AuthCreateUser email password (Some name),
                    DocSet ''users'' (JStr uid) (user_profile env name email role)]
                   @ sendMail env (JStr email) ''Welcome to CourtEase'' (welcome_html name role))))
      else
        ((JObj [(''success'', JBool True), (''message'', JStr ''Mock Registered'')],
          users @ [JObj [(''name'', JStr name), (''email'', JStr email),
                         (''password'', JStr password), (''role'', JStr role)]]),
         []))"

definition default_profile :: document where
  "default_profile =
     [(''name'', JStr ''User''), (''role'', JStr ''Litigant''),
      (''stats'', JObj [(''cases'', JNum 0), (''docs'', JNum 0)])]"

text \<open>The properties that \<^verbatim>\<open>...userData\<close> copies: those of an object; a value without own
  enumerable properties copies nothing.\<close>

fun own_props :: "jsval \<Rightarrow> document" where
  "own_props (JObj fs) = fs"
| "own_props v = []"

text \<open>\<^verbatim>\<open>loginUser\<close> (lines 113-126). In live mode the password is checked by the identity
  provider (\<open>signInWithPassword\<close>); in mock mode against \<^verbatim>\<open>MOCK_DB.users\<close>.\<close>

definition loginUser :: "env \<Rightarrow> jsval list \<Rightarrow> string \<Rightarrow> string \<Rightarrow> jsval \<times> event list" where
  "loginUser env users email password =
     (if IS_FIREBASE_LIVE env then
        (case signInWithPassword env email password of
           Inl e \<Rightarrow>
             (JObj [(''success'', JBool False),
                    (''message'', JStr (or_str (e_response_message e) ''Login Failed''))],
              [IdentitySignIn email password])
         | Inr uid \<Rightarrow>
             (case doc_get env ''users'' (JStr uid) of
                Inl e \<Rightarrow>
                  (JObj [(''success'', JBool False),
                         (''message'', JStr (or_str (e_response_message e) ''Login Failed''))],
                   [IdentitySignIn email password, DocGet ''users'' (JStr uid)])
              | Inr d \<Rightarrow>
                  (JObj [(''success'', JBool True),
                         (''user'', JObj (set_prop
                            (spread [(''id'', JStr uid)]
                               (case d of Some userData \<Rightarrow> own_props userData | None \<Rightarrow> default_profile))
                            ''email'' (JStr email)))],
                   [IdentitySignIn email password, DocGet ''users'' (JStr uid)])))
      else
        (case find (\<lambda>u. js_prop u ''email'' = JStr email \<and> js_prop u ''password'' = JStr password) users of
           Some user \<Rightarrow> (JObj [(''success'', JBool True), (''user'', user)], [])
         | None \<Rightarrow> (JObj [(''success'', JBool False), (''message'', JStr ''Invalid Credentials'')], [])))"

text \<open>\<^verbatim>\<open>updateUserProfile\<close> (lines 128-137).\<close>

definition updateUserProfile :: "env \<Rightarrow> jsval \<Rightarrow> document \<Rightarrow> jsval \<times> event list" where
  "updateUserProfile env uid data =
     (if IS_FIREBASE_LIVE env then
        (case doc_update env ''users'' uid data of
           Some e \<Rightarrow>
             (JObj [(''success'', JBool False), (''message'', JStr (e_message e))],
              [DocUpdate ''users'' uid data])
         | None \<Rightarrow>
             if truthy (js_prop (JObj data) ''name'') then
               (case updateUser env uid (js_prop (JObj data) ''name'') of
                  Some e \<Rightarrow>
                    (JObj [(''success'', JBool False), (''message'', JStr (e_message e))],
                     [DocUpdate ''users'' uid data, AuthUpdateUser uid (js_prop (JObj data) ''name'')])
                | None \<Rightarrow>
                    (JObj [(''success'', JBool True)],
                     [DocUpdate ''users'' uid data, AuthUpdateUser uid (js_prop (JObj data) ''name'')]))
             else (JObj [(''success'', JBool True)], [DocUpdate ''users'' uid data]))
      else (JObj [(''success'', JBool True)], []))"

section \<open>First route set: judgment search\<close>

definition fallback_judgments :: "jsval list" where
  "fallback_judgments =
     [JObj [(''title'', JStr ''Kesavananda Bharati v. State of Kerala''),
            (''court'', JStr ''Supreme Court''), (''link'', JStr ''#'')],
      JObj [(''title'', JStr ''Vishaka v. State of Rajasthan''),
            (''court'', JStr ''Supreme Court''), (''link'', JStr ''#'')]]"

text \<open>\<^verbatim>\<open>searchJudgments\<close> (lines 139-157). Both the request and the mapping of
  \<^verbatim>\<open>res.data.docs\<close> are inside the \<^verbatim>\<open>try\<close>; its handler only logs and falls through to
  the fixed list.\<close>

definition searchJudgments :: "env \<Rightarrow> string \<Rightarrow> jsval list \<times> event list" where
  "searchJudgments env query =
     (if configured (INDIAN_KANOON_TOKEN env) then
        (case kanoon_search env query of
           Inl e \<Rightarrow> (fallback_judgments, [KanoonSearch query])
         | Inr None \<Rightarrow> (fallback_judgments, [KanoonSearch query])
         | Inr (Some docs) \<Rightarrow>
             (map (\<lambda>d. JObj [(''title'', kd_title d), (''court'', kd_docsource d),
                              (''link'', JStr (''https://indiankanoon.org/doc/'' @ js_String (kd_tid d) @ ''/''))])
                docs,
              [KanoonSearch query]))
      else (fallback_judgments, []))"

section \<open>First route set: the AI functions\<close>

subsection \<open>Cleaning the reply text\<close>

text \<open>\<^verbatim>\<open>s.replace(/pat/g, "")\<close> for a literal pattern: the matches are found from left to
  right, and the search resumes after each match.\<close>

function replace_all :: "string \<Rightarrow> string \<Rightarrow> string" where
  "replace_all pat [] = []"
| "replace_all pat (c # cs) =
     (if pat \<noteq> [] \<and> prefix pat (c # cs)
      then replace_all pat (drop (length pat) (c # cs))
      else c # replace_all pat cs)"
  by pat_completeness auto
termination
  by (relation "measure (\<lambda>(pat, s). length s)") auto

text \<open>
  The characters that \<^verbatim>\<open>trim()\<close> removes, each as its UTF-8 bytes: the white space
  U+0009, U+000B, U+000C, U+0020, U+00A0, U+FEFF and the other space separators U+1680,
  U+2000 to U+200A, U+202F, U+205F, U+3000, and the line terminators U+000A, U+000D, U+2028,
  U+2029.
\<close>

definition white_space :: "string list" where
  "white_space =
     [[CHR 0x09], [CHR 0x0A], [CHR 0x0B], [CHR 0x0C], [CHR 0x0D], [CHR 0x20],
      [CHR 0xC2, CHR 0xA0],
      [CHR 0xE1, CHR 0x9A, CHR 0x80],
      [CHR 0xE2, CHR 0x80, CHR 0x80], [CHR 0xE2, CHR 0x80, CHR 0x81], [CHR 0xE2, CHR 0x80, CHR 0x82],
      [CHR 0xE2, CHR 0x80, CHR 0x83], [CHR 0xE2, CHR 0x80, CHR 0x84], [CHR 0xE2, CHR 0x80, CHR 0x85],
      [CHR 0xE2, CHR 0x80, CHR 0x86], [CHR 0xE2, CHR 0x80, CHR 0x87], [CHR 0xE2, CHR 0x80, CHR 0x88],
      [CHR 0xE2, CHR 0x80, CHR 0x89], [CHR 0xE2, CHR 0x80, CHR 0x8A],
      [CHR 0xE2, CHR 0x80, CHR 0xA8], [CHR 0xE2, CHR 0x80, CHR 0xA9], [CHR 0xE2, CHR 0x80, CHR 0xAF],
      [CHR 0xE2, CHR 0x81, CHR 0x9F],
      [CHR 0xE3, CHR 0x80, CHR 0x80],
      [CHR 0xEF, CHR 0xBB, CHR 0xBF]]"

text \<open>Removing, as long as there is one, a leading occurrence of one of the byte sequences
  \<open>ws\<close>. No sequence in use is empty; the test \<open>w \<noteq> []\<close> is there for termination.\<close>

function strip_leading :: "string list \<Rightarrow> string \<Rightarrow> string" where
  "strip_leading ws s =
     (case find (\<lambda>w. w \<noteq> [] \<and> prefix w s) ws of
        None \<Rightarrow> s
      | Some w \<Rightarrow> strip_leading ws (drop (length w) s))"
  by pat_completeness auto
termination
proof (relation "measure (\<lambda>(ws, s). length s)")
  show "wf (measure (\<lambda>(ws, s). length s))" by simp
next
  fix ws :: "string list" and s w :: string
  assume "find (\<lambda>w. w \<noteq> [] \<and> prefix w s) ws = Some w"
  then have "w \<noteq> [] \<and> prefix w s" by (auto simp: find_Some_iff)
  then show "((ws, drop (length w) s), (ws, s)) \<in> measure (\<lambda>(ws, s). length s)"
    by (auto simp: prefix_def)
qed

declare strip_leading.simps [simp del]

text \<open>\<^verbatim>\<open>s.trim()\<close>: white space is removed from the start and then from the end. A white
  space character at the end of a string is a trailing occurrence of its bytes, since no
  encoding of a character ends with the whole encoding of another.\<close>

definition trim :: "string \<Rightarrow> string" where
  "trim s = rev (strip_leading (map rev white_space) (rev (strip_leading white_space s)))"

text \<open>Whether a string starts, or ends, with a white space character.\<close>

definition starts_with_space :: "string \<Rightarrow> bool" where
  "starts_with_space s = list_ex (\<lambda>w. prefix w s) white_space"

definition ends_with_space :: "string \<Rightarrow> bool" where
  "ends_with_space s = list_ex (\<lambda>w. suffix w s) white_space"

text \<open>\<^verbatim>\<open>text.replace(/```json/g, "").replace(/```/g, "").trim()\<close> (lines 189, 220, 265, 276).\<close>

definition cleaned :: "string \<Rightarrow> string" where
  "cleaned text = trim (replace_all ''```'' (replace_all ''```json'' text))"

text \<open>Whether \<open>pat\<close> occurs in \<open>s\<close> as a contiguous substring.\<close>

fun contains :: "string \<Rightarrow> string \<Rightarrow> bool" where
  "contains pat [] = (pat = [])"
| "contains pat (c # cs) = (prefix pat (c # cs) \<or> contains pat cs)"

subsection \<open>Document analysis\<close>

definition document_prompt :: string where
  \<open>document_prompt =
     ''\<newline>You are a Senior Indian Advocate. Read the provided PDF content (a case document) and meticulously extract the core facts and key legal points. Output a JSON object ONLY (no markdown):\<newline>\<newline>{\<newline>  "summary": "<plain English summary of the case>",\<newline>  "facts": "<Concise, numbered list or paragraph of the core facts of the case, suitable for SWOT analysis>",\<newline>  "judgments": [ {"title":"...","court":"...","relevance":"..."} ],\<newline>  "solutions": ["step 1", "step 2"]\<newline>}\<newline>''\<close>

text \<open>\<^verbatim>\<open>genAI\<close> is created at start-up exactly when the key is set (lines 74-77), so
  \<^verbatim>\<open>genAI && typeof genAI.getGenerativeModel === "function"\<close> is the test below.\<close>

definition genAI :: "env \<Rightarrow> bool" where
  "genAI env = configured (GEMINI_API_KEY env)"

definition defaultErrorResponse_document :: document where
  "defaultErrorResponse_document =
     [(''summary'', JStr ''Error analyzing document''), (''facts'', JStr ''''),
      (''judgments'', JArr []), (''solutions'', JArr [])]"

text \<open>The first \<^verbatim>\<open>try\<close> block of \<^verbatim>\<open>processDocument\<close> (lines 178-197): \<open>Some v\<close> when the block
  returns \<open>v\<close>, \<open>None\<close> when control falls through to the REST block (the SDK threw, or
  gave no text).\<close>

definition processDocument_sdk :: "env \<Rightarrow> string \<Rightarrow> jsval option \<times> event list" where
  "processDocument_sdk env buffer =
     (if genAI env then
        (case sdk_text env ''gemini-2.0-flash'' (DocumentRequest buffer ''application/pdf'' document_prompt) of
           Inl sdkErr \<Rightarrow> (None, [GeminiSdk ''gemini-2.0-flash''])
         | Inr text \<Rightarrow>
             if text \<noteq> [] then
               (case JSON_parse env (cleaned text) of
                  Inr v \<Rightarrow> (Some v, [GeminiSdk ''gemini-2.0-flash''])
                | Inl e \<Rightarrow>
                    (Some (JObj (set_prop defaultErrorResponse_document ''summary''
                       (JStr (''AI returned non-JSON output (SDK). Raw: '' @ cleaned text)))),
                     [GeminiSdk ''gemini-2.0-flash'']))
             else (None, [GeminiSdk ''gemini-2.0-flash'']))
      else (None, []))"

text \<open>The second \<^verbatim>\<open>try\<close> block of \<^verbatim>\<open>processDocument\<close> (lines 199-227).\<close>

definition processDocument_rest :: "env \<Rightarrow> string \<Rightarrow> jsval \<times> event list" where
  "processDocument_rest env buffer =
     (case rest_text env (DocumentRequest buffer ''application/pdf'' document_prompt) of
        Inl restErr \<Rightarrow>
          (JObj (set_prop defaultErrorResponse_document ''summary''
             (JStr (''Error analyzing document: '' @
                or_str (e_response_message restErr) (or_str (Some (e_message restErr)) ''unknown'')))),
           [GeminiRest ''gemini-2.0-flash''])
      | Inr text \<Rightarrow>
          (case JSON_parse env (cleaned text) of
             Inr v \<Rightarrow> (v, [GeminiRest ''gemini-2.0-flash''])
           | Inl e \<Rightarrow>
               (JObj (set_prop defaultErrorResponse_document ''summary''
                  (JStr (''AI returned non-JSON (REST). Raw: '' @ cleaned text))),
                [GeminiRest ''gemini-2.0-flash''])))"

text \<open>\<^verbatim>\<open>processDocument\<close> (lines 161-228). The result is \<open>Inr v\<close> when the function returns
  \<open>v\<close> and \<open>Inl e\<close> when it throws \<open>e\<close> to its caller.\<close>

definition processDocument :: "env \<Rightarrow> string \<Rightarrow> (js_error + jsval) \<times> event list" where
  "processDocument env buffer =
     (if \<not> configured (GEMINI_API_KEY env) then
        (Inr (JObj [(''summary'', JStr ''AI Key Missing''), (''facts'', JStr ''''),
                    (''judgments'', JArr []), (''solutions'', JArr [])]), [])
      else
        (case processDocument_sdk env buffer of
           (Some v, tr) \<Rightarrow> (Inr v, tr)
         | (None, tr) \<Rightarrow>
             (Inr (fst (processDocument_rest env buffer)), tr @ snd (processDocument_rest env buffer))))"

subsection \<open>Chat\<close>

definition chat_prompt :: "string \<Rightarrow> string" where
  \<open>chat_prompt msg =
     ''You are an Indian Lawyer. Answer briefly and plainly to the user question: "'' @ msg @ ''"''\<close>

text \<open>\<^verbatim>\<open>chatAI\<close> (lines 230-251). \<open>msg\<close> is \<^verbatim>\<open>req.body.msg\<close>, passed unchecked by the route
  (line 474). The prompt is built at line 232, after the key test and before the first
  \<^verbatim>\<open>try\<close>: when the conversion of \<open>msg\<close> throws, \<^verbatim>\<open>chatAI\<close> throws to its caller.
  \<^verbatim>\<open>String(res)\<close> of the SDK's result object is \<^verbatim>\<open>[object Object]\<close>.\<close>

definition chatAI :: "env \<Rightarrow> jsval \<Rightarrow> (js_error + string) \<times> event list" where
  "chatAI env msg =
     (if \<not> configured (GEMINI_API_KEY env) then (Inr ''AI Key Missing'', [])
      else
        (case to_string msg of
           Inl e \<Rightarrow> (Inl e, [])
         | Inr m \<Rightarrow>
        (case (if genAI env then
                 (case sdk_text env ''gemini-2.0-flash'' (TextRequest (chat_prompt m)) of
                    Inl e \<Rightarrow> (None, [GeminiSdk ''gemini-2.0-flash''])
                  | Inr text \<Rightarrow>
                      (Some (if text \<noteq> [] then text else ''[object Object]''),
                       [GeminiSdk ''gemini-2.0-flash'']))
               else (None, [])) of
           (Some reply, tr) \<Rightarrow> (Inr reply, tr)
         | (None, tr) \<Rightarrow>
             (case rest_text env (TextRequest (chat_prompt m)) of
                Inl err \<Rightarrow>
                  (Inr (''AI Error: '' @
                     or_str (e_response_message err) (or_str (Some (e_message err)) ''unknown'')),
                   tr @ [GeminiRest ''gemini-2.0-flash''])
              | Inr reply \<Rightarrow> (Inr reply, tr @ [GeminiRest ''gemini-2.0-flash''])))))"

subsection \<open>SWOT analysis\<close>

definition swot_prompt :: "string \<Rightarrow> string" where
  \<open>swot_prompt text =
     ''Analyze this case under Indian Law. First, re-state the core facts concisely, then perform the SWOT. Return JSON ONLY:\<newline>{ "summary": "Overall analysis summary...", "facts": "The core facts provided: ''
     @ text @ ''", "strengths": ["..."], "weaknesses": ["..."] }\<newline>Case Facts: '' @ text\<close>

text \<open>\<^verbatim>\<open>defaultErrorResponse\<close> of \<^verbatim>\<open>analyzeCase\<close> (line 258) holds the submitted value itself
  as \<^verbatim>\<open>facts\<close>.\<close>

definition defaultErrorResponse_swot :: "jsval \<Rightarrow> document" where
  "defaultErrorResponse_swot text =
     [(''summary'', JStr ''Analysis Failed''), (''facts'', text),
      (''strengths'', JArr []), (''weaknesses'', JArr [])]"

text \<open>The first \<^verbatim>\<open>try\<close> block of \<^verbatim>\<open>analyzeCase\<close> (lines 260-268), for the submitted text
  already converted to the string \<open>s\<close>. \<^verbatim>\<open>JSON.parse\<close> is inside the block, so a parse error
  is caught like an SDK error and control falls through.\<close>

definition analyzeCase_sdk :: "env \<Rightarrow> string \<Rightarrow> jsval option \<times> event list" where
  "analyzeCase_sdk env s =
     (if genAI env then
        (case sdk_text env ''gemini-2.0-flash'' (TextRequest (swot_prompt s)) of
           Inl sdkErr \<Rightarrow> (None, [GeminiSdk ''gemini-2.0-flash''])
         | Inr t \<Rightarrow>
             (case JSON_parse env (cleaned (if t \<noteq> [] then t else ''[object Object]'')) of
                Inr v \<Rightarrow> (Some v, [GeminiSdk ''gemini-2.0-flash''])
              | Inl e \<Rightarrow> (None, [GeminiSdk ''gemini-2.0-flash''])))
      else (None, []))"

text \<open>The second \<^verbatim>\<open>try\<close> block of \<^verbatim>\<open>analyzeCase\<close> (lines 270-280): the handler receives the
  request error or the parse error.\<close>

definition analyzeCase_rest :: "env \<Rightarrow> jsval \<Rightarrow> string \<Rightarrow> jsval \<times> event list" where
  "analyzeCase_rest env text s =
     (case (case rest_text env (TextRequest (swot_prompt s)) of
              Inl restErr \<Rightarrow> Inl restErr
            | Inr t \<Rightarrow> JSON_parse env (cleaned t)) of
        Inr v \<Rightarrow> (v, [GeminiRest ''gemini-2.0-flash''])
      | Inl restErr \<Rightarrow>
          (JObj (set_prop (defaultErrorResponse_swot text) ''summary''
             (JStr (''Analysis Failed: '' @
                or_str (e_response_message restErr) (or_str (Some (e_message restErr)) ''unknown'')))),
           [GeminiRest ''gemini-2.0-flash'']))"

text \<open>\<^verbatim>\<open>analyzeCase\<close> (lines 253-281). \<open>text\<close> is \<^verbatim>\<open>req.body.text\<close>, passed unchecked by the
  route (line 473). The prompt is built at line 255, after the key test and before the first
  \<^verbatim>\<open>try\<close>: when the conversion of \<open>text\<close> throws, \<^verbatim>\<open>analyzeCase\<close> throws to its caller.\<close>

definition analyzeCase :: "env \<Rightarrow> jsval \<Rightarrow> (js_error + jsval) \<times> event list" where
  "analyzeCase env text =
     (if \<not> configured (GEMINI_API_KEY env) then
        (Inr (JObj [(''summary'', JStr ''AI Error - key missing''), (''facts'', JStr ''''),
                    (''strengths'', JArr []), (''weaknesses'', JArr [])]), [])
      else
        (case to_string text of
           Inl e \<Rightarrow> (Inl e, [])
         | Inr s \<Rightarrow>
             (case analyzeCase_sdk env s of
                (Some v, tr) \<Rightarrow> (Inr v, tr)
              | (None, tr) \<Rightarrow>
                  (Inr (fst (analyzeCase_rest env text s)), tr @ snd (analyzeCase_rest env text s)))))"

section \<open>First route set: case management\<close>

text \<open>\<^verbatim>\<open>saveCaseToDB\<close> (lines 995-1011). Reading \<^verbatim>\<open>caseData.summary\<close> of a nullish
  \<^verbatim>\<open>caseData\<close> throws before anything is written; a rejected write is thrown on to the
  caller.\<close>

definition case_record :: "env \<Rightarrow> string \<Rightarrow> jsval \<Rightarrow> jsval \<Rightarrow> document" where
  "case_record env caseId userId caseData =
     [(''caseId'', JStr caseId), (''userId'', userId),
      (''summary'', js_prop caseData ''summary''), (''facts'', js_prop caseData ''facts''),
      (''judgments'', js_prop caseData ''judgments''), (''solutions'', js_prop caseData ''solutions''),
      (''status'', JStr ''Submitted''), (''notes'', JArr []), (''hearingDate'', JNull),
      (''createdAt'', JStr (toISOString env))]"

definition saveCaseToDB :: "env \<Rightarrow> jsval \<Rightarrow> jsval \<Rightarrow> (js_error + string) \<times> event list" where
  "saveCaseToDB env userId caseData =
     (if \<not> IS_FIREBASE_LIVE env then (Inr (''MOCK-CASE-'' @ show_nat (Date_now env)), [])
      else if nullish caseData then
        (Inl (TypeError (''Cannot read properties of '' @ js_String caseData @ '' (reading 'summary')'')), [])
      else
        (case doc_set env ''cases'' (JStr (''CASE-'' @ show_nat (Date_now env)))
                (case_record env (''CASE-'' @ show_nat (Date_now env)) userId caseData) of
           Some e \<Rightarrow>
             (Inl e,
              [DocSet ''cases'' (JStr (''CASE-'' @ show_nat (Date_now env)))
                 (case_record env (''CASE-'' @ show_nat (Date_now env)) userId caseData)])
         | None \<Rightarrow>
             (Inr (''CASE-'' @ show_nat (Date_now env)),
              [DocSet ''cases'' (JStr (''CASE-'' @ show_nat (Date_now env)))
                 (case_record env (''CASE-'' @ show_nat (Date_now env)) userId caseData)])))"

text \<open>\<^verbatim>\<open>POST /api/save-case\<close> (lines 1013-1025). The handler has no \<^verbatim>\<open>try\<close>.\<close>

definition save_case :: "env \<Rightarrow> jsval \<Rightarrow> jsval \<Rightarrow> jsval \<Rightarrow> http_result \<times> event list" where
  "save_case env userId email data =
     (if \<not> IS_FIREBASE_LIVE env then
        (Responded 200 (JObj [(''success'', JBool True), (''message'', JStr ''Mock Mode'')]), [])
      else
        (case saveCaseToDB env userId data of
           (Inl e, tr) \<Rightarrow> (Unhandled e, tr)
         | (Inr caseId, tr) \<Rightarrow>
             (Responded 200 (JObj [(''success'', JBool True), (''caseId'', JStr caseId)]),
              tr @ sendMail env email ''Case Uploaded Successfully''
                     (''<h3>Your case has been uploaded to CourtEase</h3>\<newline>         <p>Case ID: <b>''
                      @ caseId @ ''</b></p>\<newline>         <p>Summary: ''
                      @ js_String (js_prop data ''summary'') @ ''</p>''))))"

text \<open>\<^verbatim>\<open>POST /api/get-cases\<close> and \<^verbatim>\<open>POST /api/all-cases\<close> (lines 1027-1044).\<close>

definition get_cases :: "env \<Rightarrow> jsval \<Rightarrow> http_result \<times> event list" where
  "get_cases env userId =
     (if \<not> IS_FIREBASE_LIVE env then
        (Responded 200 (JObj [(''success'', JBool True), (''cases'', JArr [])]), [])
      else
        (case collection_get env ''cases'' (Some (''userId'', userId)) of
           Inl e \<Rightarrow> (Unhandled e, [CollectionGet ''cases''])
         | Inr docs \<Rightarrow>
             (Responded 200 (JObj [(''success'', JBool True),
                                   (''cases'', JArr (map (\<lambda>d. JObj (snd d)) docs))]),
              [CollectionGet ''cases''])))"

definition all_cases :: "env \<Rightarrow> http_result \<times> event list" where
  "all_cases env =
     (if \<not> IS_FIREBASE_LIVE env then
        (Responded 200 (JObj [(''success'', JBool True), (''cases'', JArr [])]), [])
      else
        (case collection_get env ''cases'' None of
           Inl e \<Rightarrow> (Unhandled e, [CollectionGet ''cases''])
         | Inr docs \<Rightarrow>
             (Responded 200 (JObj [(''success'', JBool True),
                                   (''cases'', JArr (map (\<lambda>d. JObj (snd d)) docs))]),
              [CollectionGet ''cases''])))"

text \<open>\<^verbatim>\<open>POST /api/cases/add-note\<close> (lines 1046-1057).\<close>

definition add_note :: "env \<Rightarrow> string \<Rightarrow> jsval \<Rightarrow> http_result \<times> event list" where
  "add_note env caseId note =
     (if \<not> IS_FIREBASE_LIVE env then
        (Responded 200 (JObj [(''success'', JBool True), (''message'', JStr ''Mock Mode'')]), [])
      else
        (case doc_update env ''cases'' (JStr caseId)
                [(''notes'', JArrayUnion (JObj [(''text'', note), (''time'', JStr (toISOString env))]))] of
           Some e \<Rightarrow>
             (Unhandled e,
              [DocUpdate ''cases'' (JStr caseId)
                 [(''notes'', JArrayUnion (JObj [(''text'', note), (''time'', JStr (toISOString env))]))]])
         | None \<Rightarrow>
             (Responded 200 (JObj [(''success'', JBool True)]),
              [DocUpdate ''cases'' (JStr caseId)
                 [(''notes'', JArrayUnion (JObj [(''text'', note), (''time'', JStr (toISOString env))]))]])))"

text \<open>
  The body shared by the handlers of \<^verbatim>\<open>POST /api/cases/update-hearing\<close> and
  \<^verbatim>\<open>POST /api/cases/update-status\<close> in both route sets (lines 1059-1074, 1076-1091,
  1451-1472, 1475-1496), which differ in the updated field, the subject, the message and the
  \<^verbatim>\<open>sendMail\<close> they call: the guard on \<^verbatim>\<open>IS_FIREBASE_LIVE\<close>, \<^verbatim>\<open>ref.update(...)\<close>,
  \<^verbatim>\<open>ref.get()\<close>, the read of the owner's profile, the guarded \<^verbatim>\<open>sendMail\<close> and the response.
  None of the four handlers has a \<^verbatim>\<open>try\<close>. The mail call is not awaited; the trace lists it
  where the handler issues it.
\<close>

definition case_update ::
  "(jsval \<Rightarrow> string \<Rightarrow> string \<Rightarrow> event list) \<Rightarrow> env \<Rightarrow> string \<Rightarrow> document \<Rightarrow> string \<Rightarrow> string
     \<Rightarrow> http_result \<times> event list" where
  "case_update mail env caseId upd subject html =
     (if \<not> IS_FIREBASE_LIVE env then
        (Responded 200 (JObj [(''success'', JBool True), (''message'', JStr ''Mock Mode'')]), [])
      else
        (case doc_update env ''cases'' (JStr caseId) upd of
           Some e \<Rightarrow> (Unhandled e, [DocUpdate ''cases'' (JStr caseId) upd])
         | None \<Rightarrow>
             (case doc_get env ''cases'' (JStr caseId) of
                Inl e \<Rightarrow>
                  (Unhandled e, [DocUpdate ''cases'' (JStr caseId) upd, DocGet ''cases'' (JStr caseId)])
              | Inr caseDoc \<Rightarrow>
                  (case doc_get env ''users'' (opt_prop caseDoc ''userId'') of
                     Inl e \<Rightarrow>
                       (Unhandled e,
                        [DocUpdate ''cases'' (JStr caseId) upd, DocGet ''cases'' (JStr caseId),
                         DocGet ''users'' (opt_prop caseDoc ''userId'')])
                   | Inr userDoc \<Rightarrow>
                       (Responded 200 (JObj [(''success'', JBool True)]),
                        [DocUpdate ''cases'' (JStr caseId) upd, DocGet ''cases'' (JStr caseId),
                         DocGet ''users'' (opt_prop caseDoc ''userId'')]
                        @ (if truthy (opt_prop userDoc ''email'')
                           then mail (opt_prop userDoc ''email'') subject html else []))))))"

definition hearing_html :: "string \<Rightarrow> string \<Rightarrow> string" where
  "hearing_html caseId hearingDate =
     ''<p>The next hearing for your case (<b>'' @ caseId @ ''</b>) has been scheduled for <b>''
     @ hearingDate @ ''</b>.</p>''"

definition status_html :: "string \<Rightarrow> string \<Rightarrow> string" where
  "status_html caseId status =
     ''<p>The status for your case (<b>'' @ caseId @ ''</b>) has been updated to <b>''
     @ status @ ''</b>.</p>''"

text \<open>\<^verbatim>\<open>POST /api/cases/update-hearing\<close> (lines 1059-1074).\<close>

definition update_hearing :: "env \<Rightarrow> string \<Rightarrow> string \<Rightarrow> http_result \<times> event list" where
  "update_hearing env caseId hearingDate =
     case_update (sendMail env) env caseId [(''hearingDate'', JStr hearingDate)]
       ''Case Update: New Hearing Date'' (hearing_html caseId hearingDate)"

text \<open>\<^verbatim>\<open>POST /api/cases/update-status\<close> (lines 1076-1091).\<close>

definition update_status :: "env \<Rightarrow> string \<Rightarrow> string \<Rightarrow> http_result \<times> event list" where
  "update_status env caseId status =
     case_update (sendMail env) env caseId [(''status'', JStr status)]
       ''Case Update: Status Changed'' (status_html caseId status)"

section \<open>Second route set\<close>

text \<open>\<^verbatim>\<open>sendMail\<close> of the second route set (lines 1170-1189): the relay reports through a
  callback that only logs.\<close>

definition sendMail2 :: "env \<Rightarrow> jsval \<Rightarrow> string \<Rightarrow> string \<Rightarrow> event list" where
  "sendMail2 env to_addr subject htmlContent =
     (if \<not> configured (NODEMAILER_PASS env) then [EmailSkipped to_addr subject]
      else [MailerSendMail to_addr subject htmlContent])"

text \<open>\<^verbatim>\<open>h.split(sep)[1]\<close>: the text between the first and the second occurrence of \<open>sep\<close>,
  undefined when \<open>sep\<close> does not occur.\<close>

fun after_first :: "string \<Rightarrow> string \<Rightarrow> string option" where
  "after_first sep [] = None"
| "after_first sep (c # cs) =
     (if prefix sep (c # cs) then Some (drop (length sep) (c # cs)) else after_first sep cs)"

fun before_first :: "string \<Rightarrow> string \<Rightarrow> string" where
  "before_first sep [] = []"
| "before_first sep (c # cs) = (if prefix sep (c # cs) then [] else c # before_first sep cs)"

definition split_second :: "string \<Rightarrow> string \<Rightarrow> string option" where
  "split_second sep h = map_option (before_first sep) (after_first sep h)"

text \<open>The middleware \<^verbatim>\<open>verifyToken\<close> (lines 1193-1214): \<open>Inl\<close> is the response it sends
  itself, \<open>Inr\<close> the value it stores in \<^verbatim>\<open>req.user\<close> before calling \<^verbatim>\<open>next()\<close>.\<close>

definition verifyToken :: "env \<Rightarrow> string option \<Rightarrow> (http_result + jsval) \<times> event list" where
  "verifyToken env authorization =
     (if \<not> IS_FIREBASE_LIVE env then (Inr (JObj [(''uid'', JStr ''mock-user-id'')]), [])
      else
        (case (if configured authorization then split_second ''Bearer '' (the authorization) else None) of
           None \<Rightarrow>
             (Inl (Responded 401 (JObj [(''success'', JBool False),
                                         (''message'', JStr ''Authorization required.'')])), [])
         | Some idToken \<Rightarrow>
             if idToken = [] then
               (Inl (Responded 401 (JObj [(''success'', JBool False),
                                           (''message'', JStr ''Authorization required.'')])), [])
             else
               (case verifyIdToken env idToken of
                  Inl e \<Rightarrow>
                    (Inl (Responded 401 (JObj [(''success'', JBool False),
                                                (''message'', JStr ''Invalid or expired token.'')])),
                     [AuthVerifyIdToken idToken])
                | Inr decodedToken \<Rightarrow> (Inr decodedToken, [AuthVerifyIdToken idToken]))))"

text \<open>The body of a registration request: \<open>None\<close> is a missing field.\<close>

record register_body =
  rb_email :: "string option"
  rb_password :: "string option"

text \<open>\<^verbatim>\<open>POST /api/register\<close> of the second route set (lines 1220-1275). The first argument of
  the handler is \<^verbatim>\<open>req.body\<close>, \<open>None\<close> when it is undefined.\<close>

definition register2 :: "env \<Rightarrow> register_body option \<Rightarrow> http_result \<times> event list" where
  "register2 env body =
     (if body = None \<or> \<not> configured (rb_email (the body)) \<or> \<not> configured (rb_password (the body)) then
        (Responded 400 (JObj [(''success'', JBool False),
           (''message'', JStr ''Error: Registration data missing. Client must use 'Content-Type: application/json' and JSON.stringify().'')]),
         [])
      else if \<not> IS_FIREBASE_LIVE env then
        (Responded 200 (JObj [(''success'', JBool True),
           (''message'', JStr ''User mock-registered (Firebase not live)'')]), [])
      else
        (let email = the (rb_email (the body)); password = the (rb_password (the body));
             failed = (\<lambda>error. Responded 400 (JObj [(''success'', JBool False),
                         (''message'', JStr (if e_code error = Some ''auth/email-already-in-use''
                                             then ''This email is already in use.''
                                             else ''Registration failed.''))]))
         in
           (case createUser env email password of
              Inl error \<Rightarrow> (failed error, [AuthCreateUser email password None])
            | Inr userId \<Rightarrow>
                (case doc_set env ''users'' (JStr userId)
                        [(''email'', JStr email), (''createdAt'', JServerTimestamp)] of
                   Some error \<Rightarrow>
                     (failed error,
                      [AuthCreateUser email password None,
                       DocSet ''users'' (JStr userId) [(''email'', JStr email), (''createdAt'', JServerTimestamp)]])
                 | None \<Rightarrow>
                     (Responded 200 (JObj [(''success'', JBool True), (''userId'', JStr userId),
                        (''message'', JStr ''User registered successfully. Welcome email sent.'')]),
                      [AuthCreateUser email password None,
                       DocSet ''users'' (JStr userId) [(''email'', JStr email), (''createdAt'', JServerTimestamp)]]
                      @ sendMail2 env (JStr email) ''Welcome to CourtEase!''
                          ''<p>Hello,</p><p>Thank you for registering! Your account has been successfully created.</p>'')))))"

record login_body =
  lb_email :: string
  lb_password :: string

text \<open>\<^verbatim>\<open>POST /api/login\<close> of the second route set (lines 1281-1300). The handler reads only
  \<^verbatim>\<open>email\<close> from the body; as its comments say, it assumes that the client has already
  authenticated, and issues a token for the account with that email.\<close>

definition login2 :: "env \<Rightarrow> login_body \<Rightarrow> http_result \<times> event list" where
  "login2 env body =
     (if \<not> IS_FIREBASE_LIVE env then
        (Responded 200 (JObj [(''success'', JBool True), (''token'', JStr ''mock-jwt-token''),
                              (''message'', JStr ''Mock Login Success'')]), [])
      else
        (case getUserByEmail env (lb_email body) of
           Inl error \<Rightarrow>
             (Responded 401 (JObj [(''success'', JBool False),
                (''message'', JStr ''Invalid credentials or user not found.'')]),
              [AuthGetUserByEmail (lb_email body)])
         | Inr uid \<Rightarrow>
             (case createCustomToken env uid of
                Inl error \<Rightarrow>
                  (Responded 401 (JObj [(''success'', JBool False),
                     (''message'', JStr ''Invalid credentials or user not found.'')]),
                   [AuthGetUserByEmail (lb_email body), AuthCreateCustomToken uid])
              | Inr customToken \<Rightarrow>
                  (Responded 200 (JObj [(''success'', JBool True), (''token'', JStr customToken),
                     (''userId'', JStr uid), (''message'', JStr ''Login successful (Token generated)'')]),
                   [AuthGetUserByEmail (lb_email body), AuthCreateCustomToken uid]))))"

definition analysis_failed :: http_result where
  "analysis_failed =
     Responded 500 (JObj [(''success'', JBool False),
       (''message'', JStr ''AI analysis failed due to server error or invalid document.'')])"

text \<open>
  The handler of \<^verbatim>\<open>POST /api/ai/analyze-document\<close> (lines 1308-1377), after the
  middleware: \<open>user\<close> is \<^verbatim>\<open>req.user\<close>, \<open>upload\<close> is \<^verbatim>\<open>req.file\<close> as buffer and MIME type.
  Its \<^verbatim>\<open>try\<close> block calls \<^verbatim>\<open>getGenerativeModel\<close> with the string \<^verbatim>\<open>'gemini-2.5-flash'\<close>
  (line 1335). The library takes an object with a \<^verbatim>\<open>model\<close> property there, as lines 180,
  236 and 262 pass it; given a string it throws before it sends any request. The \<^verbatim>\<open>catch\<close>
  answers with status 500, and the rest of the block - the request to the model,
  \<^verbatim>\<open>JSON.parse(response.text)\<close>, the write to \<^verbatim>\<open>cases\<close> (lines 1356-1364) and the success
  response - is never reached.
\<close>

definition analyze_document_handler ::
  "env \<Rightarrow> jsval \<Rightarrow> (string \<times> string) option \<Rightarrow> http_result \<times> event list" where
  "analyze_document_handler env user upload =
     (if \<not> IS_FIREBASE_LIVE env then
        (Responded 200 (JObj [(''summary'', JStr ''Mock Analysis: The document is an important legal paper that needs immediate review.''),
                              (''caseId'', JStr ''CASE-MOCK-001'')]), [])
      else
        (case upload of
           None \<Rightarrow>
             (Responded 400 (JObj [(''success'', JBool False), (''message'', JStr ''No file uploaded.'')]), [])
         | Some (fileBuffer, mimeType) \<Rightarrow>
             if \<not> configured (GEMINI_API_KEY env) then
               (Responded 500 (JObj [(''success'', JBool False),
                                     (''message'', JStr ''GEMINI_API_KEY not configured.'')]), [])
             else (analysis_failed, [])))"

text \<open>A route with \<^verbatim>\<open>verifyToken\<close> in front of its handler.\<close>

definition with_verifyToken ::
  "env \<Rightarrow> string option \<Rightarrow> (jsval \<Rightarrow> http_result \<times> event list) \<Rightarrow> http_result \<times> event list" where
  "with_verifyToken env authorization handler =
     (case verifyToken env authorization of
        (Inl response, tr) \<Rightarrow> (response, tr)
      | (Inr user, tr) \<Rightarrow> (fst (handler user), tr @ snd (handler user)))"

definition analyze_document2 ::
  "env \<Rightarrow> string option \<Rightarrow> (string \<times> string) option \<Rightarrow> http_result \<times> event list" where
  "analyze_document2 env authorization upload =
     with_verifyToken env authorization (\<lambda>user. analyze_document_handler env user upload)"

text \<open>\<^verbatim>\<open>POST /api/ai/legal-research\<close> (lines 1384-1420).\<close>

definition legal_research_handler :: "env \<Rightarrow> string \<Rightarrow> http_result \<times> event list" where
  "legal_research_handler env query =
     (if \<not> IS_FIREBASE_LIVE env then
        (Responded 200 (JObj [(''results'',
           JArr [JObj [(''title'', JStr ''Mock Judgement 1''), (''url'', JStr ''#'')],
                 JObj [(''title'', JStr ''Mock Judgement 2''), (''url'', JStr ''#'')]])]), [])
      else if \<not> configured (INDIAN_KANOON_TOKEN env) then
        (Responded 500 (JObj [(''success'', JBool False),
                              (''message'', JStr ''INDIAN_KANOON_TOKEN not configured.'')]), [])
      else
        (case kanoon_search env query of
           Inl error \<Rightarrow>
             (Responded 500 (JObj [(''success'', JBool False),
                (''message'', JStr (if e_status error = Some 401
                                    then ''Unauthorized: Invalid Indian Kanoon Token.''
                                    else ''Legal research failed. Check if Indian Kanoon Token is valid.''))]),
              [KanoonSearch query])
         | Inr None \<Rightarrow>
             (Responded 500 (JObj [(''success'', JBool False),
                (''message'', JStr ''Legal research failed. Check if Indian Kanoon Token is valid.'')]),
              [KanoonSearch query])
         | Inr (Some results) \<Rightarrow>
             (Responded 200 (JObj [(''success'', JBool True),
                (''results'', JArr (map (\<lambda>r. JObj [(''title'', kd_title r), (''url'', kd_url r)]) results))]),
              [KanoonSearch query])))"

definition legal_research2 :: "env \<Rightarrow> string option \<Rightarrow> string \<Rightarrow> http_result \<times> event list" where
  "legal_research2 env authorization query =
     with_verifyToken env authorization (\<lambda>user. legal_research_handler env query)"

text \<open>\<^verbatim>\<open>GET /api/cases\<close> (lines 1428-1448).\<close>

definition cases_handler :: "env \<Rightarrow> jsval \<Rightarrow> http_result \<times> event list" where
  "cases_handler env user =
     (if \<not> IS_FIREBASE_LIVE env then
        (Responded 200 (JObj [(''cases'',
           JArr [JObj [(''id'', JStr ''MOCK-001''), (''summary'', JStr ''Mock Case Summary'')]])]), [])
      else if nullish user then
        (Responded 500 (JObj [(''success'', JBool False), (''message'', JStr ''Failed to retrieve cases.'')]), [])
      else
        (case collection_get env ''cases'' (Some (''userId'', js_prop user ''uid'')) of
           Inl error \<Rightarrow>
             (Responded 500 (JObj [(''success'', JBool False), (''message'', JStr ''Failed to retrieve cases.'')]),
              [CollectionGet ''cases''])
         | Inr docs \<Rightarrow>
             (Responded 200 (JObj [(''success'', JBool True),
                (''cases'', JArr (map (\<lambda>d. JObj (spread [(''id'', JStr (fst d))] (snd d))) docs))]),
              [CollectionGet ''cases''])))"

definition cases2 :: "env \<Rightarrow> string option \<Rightarrow> http_result \<times> event list" where
  "cases2 env authorization = with_verifyToken env authorization (cases_handler env)"

text \<open>\<^verbatim>\<open>POST /api/cases/update-hearing\<close> (lines 1451-1472) and
  \<^verbatim>\<open>POST /api/cases/update-status\<close> (lines 1475-1496).\<close>

definition update_hearing2 :: "env \<Rightarrow> string \<Rightarrow> string \<Rightarrow> http_result \<times> event list" where
  "update_hearing2 env caseId hearingDate =
     case_update (sendMail2 env) env caseId [(''hearingDate'', JStr hearingDate)]
       ''Case Update: Next Hearing Date'' (hearing_html caseId hearingDate)"

definition update_status2 :: "env \<Rightarrow> string \<Rightarrow> string \<Rightarrow> http_result \<times> event list" where
  "update_status2 env caseId status =
     case_update (sendMail2 env) env caseId [(''status'', JStr status)]
       ''Case Update: Status Changed'' (status_html caseId status)"

section \<open>Call sites and upstream services\<close>

text \<open>The upstream service an event belongs to, and the call site that issues it: the
  SDK call and the raw HTTP call to the generative model are two sites of one service.\<close>

datatype service = Auth | Database | AI | Search | Mail

fun service_of :: "event \<Rightarrow> service" where
  "service_of (AuthCreateUser e p n) = Auth"
| "service_of (AuthUpdateUser u n) = Auth"
| "service_of (AuthGetUserByEmail e) = Auth"
| "service_of (AuthCreateCustomToken u) = Auth"
| "service_of (AuthVerifyIdToken t) = Auth"
| "service_of (IdentitySignIn e p) = Auth"
| "service_of (DocSet c i d) = Database"
| "service_of (DocUpdate c i d) = Database"
| "service_of (DocGet c i) = Database"
| "service_of (CollectionGet c) = Database"
| "service_of (GeminiSdk m) = AI"
| "service_of (GeminiRest m) = AI"
| "service_of (KanoonSearch q) = Search"
| "service_of (MailerSendMail t s h) = Mail"
| "service_of (EmailSkipped t s) = Mail"

fun call_site :: "event \<Rightarrow> string \<times> string" where
  "call_site (AuthCreateUser e p n) = (''createUser'', [])"
| "call_site (AuthUpdateUser u n) = (''updateUser'', [])"
| "call_site (AuthGetUserByEmail e) = (''getUserByEmail'', [])"
| "call_site (AuthCreateCustomToken u) = (''createCustomToken'', [])"
| "call_site (AuthVerifyIdToken t) = (''verifyIdToken'', [])"
| "call_site (IdentitySignIn e p) = (''signInWithPassword'', [])"
| "call_site (DocSet c i d) = (''set'', c)"
| "call_site (DocUpdate c i d) = (''update'', c)"
| "call_site (DocGet c i) = (''get'', c)"
| "call_site (CollectionGet c) = (''query'', c)"
| "call_site (GeminiSdk m) = (''generateContent'', ''sdk'')"
| "call_site (GeminiRest m) = (''generateContent'', ''rest'')"
| "call_site (KanoonSearch q) = (''search'', [])"
| "call_site (MailerSendMail t s h) = (''sendMail'', [])"
| "call_site (EmailSkipped t s) = (''sendMail'', [])"

definition calls_to :: "service \<Rightarrow> event list \<Rightarrow> nat" where
  "calls_to s tr = length (filter (\<lambda>e. service_of e = s) tr)"

text \<open>The invocations of \<^verbatim>\<open>sendMail\<close> in a trace, as recipient and subject, whether relayed
  or skipped for missing credentials; and the documents written with \<^verbatim>\<open>set\<close>.\<close>

fun mail_of :: "event \<Rightarrow> (jsval \<times> string) option" where
  "mail_of (MailerSendMail t s h) = Some (t, s)"
| "mail_of (EmailSkipped t s) = Some (t, s)"
| "mail_of e = None"

definition mails :: "event list \<Rightarrow> (jsval \<times> string) list" where
  "mails tr = List.map_filter mail_of tr"

fun write_of :: "event \<Rightarrow> (string \<times> jsval \<times> document) option" where
  "write_of (DocSet c i d) = Some (c, i, d)"
| "write_of e = None"

definition writes :: "event list \<Rightarrow> (string \<times> jsval \<times> document) list" where
  "writes tr = List.map_filter write_of tr"

section \<open>Example environments\<close>

text \<open>A live deployment without any key in which every service call fails; the examples
  below override the fields they need.\<close>

definition unavailable :: js_error where
  "unavailable =
     \<lparr>e_message = ''unavailable'', e_response_message = None, e_code = None, e_status = None\<rparr>"

definition down_env :: env where
  "down_env =
     \<lparr>IS_FIREBASE_LIVE = True, INDIAN_KANOON_TOKEN = None, GEMINI_API_KEY = None,
      EMAIL_USER = None, EMAIL_PASS = None, NODEMAILER_PASS = None,
      Date_now = 1700000000000, toISOString = ''2023-11-14T22:13:20.000Z'',
      createUser = (\<lambda>email password. Inl unavailable),
      updateUser = (\<lambda>uid name. Some unavailable),
      getUserByEmail = (\<lambda>email. Inl unavailable),
      createCustomToken = (\<lambda>uid. Inl unavailable),
      verifyIdToken = (\<lambda>idToken. Inl unavailable),
      signInWithPassword = (\<lambda>email password. Inl unavailable),
      doc_set = (\<lambda>c i d. Some unavailable),
      doc_update = (\<lambda>c i d. Some unavailable),
      doc_get = (\<lambda>c i. Inl unavailable),
      collection_get = (\<lambda>c w. Inl unavailable),
      sdk_text = (\<lambda>m r. Inl unavailable),
      rest_text = (\<lambda>r. Inl unavailable),
      JSON_parse = (\<lambda>s. Inl unavailable),
      kanoon_search = (\<lambda>q. Inl unavailable)\<rparr>"


text \<open>A stand-in for \<^verbatim>\<open>JSON.parse\<close> in the examples. It agrees with \<^verbatim>\<open>JSON.parse\<close> on every
  string the examples hand to it, in whether the string parses and in the value: \<^verbatim>\<open>{}\<close> is
  the empty object, and the other strings used (\<^verbatim>\<open>nope\<close>, \<^verbatim>\<open>Sorry, no.\<close>, \<^verbatim>\<open>Here:{}\<close>) are
  not JSON. The message of the error that \<^verbatim>\<open>JSON.parse\<close> throws depends on the version of the
  engine (for these strings it begins with \<^verbatim>\<open>Unexpected token\<close>); the one below stands for it, and
  no example depends on its wording.\<close>

definition SyntaxError :: js_error where
  "SyntaxError =
     \<lparr>e_message = ''Unexpected token'', e_response_message = None,
      e_code = None, e_status = None\<rparr>"

definition parse_braces :: "string \<Rightarrow> js_error + jsval" where
  "parse_braces s = (if s = ''{}'' then Inr (JObj []) else Inl SyntaxError)"

text \<open>A deployment with the model key set, whose SDK call returns \<open>reply\<close>; and one whose
  SDK call fails while the REST call returns \<open>reply\<close>.\<close>

definition sdk_env :: "string \<Rightarrow> env" where
  "sdk_env reply =
     down_env\<lparr>GEMINI_API_KEY := Some ''key'', sdk_text := (\<lambda>m r. Inr reply),
              JSON_parse := parse_braces\<rparr>"

definition rest_env :: "string \<Rightarrow> env" where
  "rest_env reply =
     down_env\<lparr>GEMINI_API_KEY := Some ''key'', rest_text := (\<lambda>r. Inr reply),
              JSON_parse := parse_braces\<rparr>"

text \<open>An identity provider that knows one account: \<^verbatim>\<open>asha@x.in\<close> with password
  \<^verbatim>\<open>s3cret\<close> and uid \<^verbatim>\<open>u1\<close>.\<close>

definition INVALID_PASSWORD :: js_error where
  "INVALID_PASSWORD =
     \<lparr>e_message = ''Request failed with status code 400'',
      e_response_message = Some ''INVALID_PASSWORD'', e_code = None, e_status = Some 400\<rparr>"

definition one_account_env :: env where
  "one_account_env =
     down_env\<lparr>signInWithPassword :=
                (\<lambda>email password. if email = ''asha@x.in'' \<and> password = ''s3cret''
                                   then Inr ''u1'' else Inl INVALID_PASSWORD),
              getUserByEmail := (\<lambda>email. if email = ''asha@x.in'' then Inr ''u1'' else Inl unavailable),
              createCustomToken := (\<lambda>uid. Inr (''token-for-'' @ uid)),
              doc_get := (\<lambda>c i. Inr None)\<rparr>"


definition both_env :: "string \<Rightarrow> env" where
  "both_env reply =
     down_env\<lparr>GEMINI_API_KEY := Some ''key'', sdk_text := (\<lambda>m r. Inr reply),
              rest_text := (\<lambda>r. Inr reply), JSON_parse := parse_braces\<rparr>"

text \<open>A deployment in which every bearer token is accepted as user \<^verbatim>\<open>u1\<close>, account creation
  yields uid \<^verbatim>\<open>u2\<close> and every write succeeds.\<close>

definition writable_env :: env where
  "writable_env =
     down_env\<lparr>verifyIdToken := (\<lambda>idToken. Inr (JObj [(''uid'', JStr ''u1'')])),
              createUser := (\<lambda>email password. Inr ''u2''),
              doc_set := (\<lambda>c i d. None), doc_update := (\<lambda>c i d. None)\<rparr>"

text \<open>On top of that, case \<^verbatim>\<open>CASE-1\<close> belongs to user \<^verbatim>\<open>u1\<close>, and the profile of
  \<^verbatim>\<open>u1\<close> is \<open>profile\<close> (\<open>None\<close>: there is no profile document); the mail credentials are
  set.\<close>

definition case_env :: "jsval option \<Rightarrow> env" where
  "case_env profile =
     writable_env\<lparr>EMAIL_USER := Some ''courtease@x.in'', EMAIL_PASS := Some ''app-password'',
                  doc_get := (\<lambda>c i. if c = ''cases'' \<and> i = JStr ''CASE-1''
                                      then Inr (Some (JObj [(''caseId'', JStr ''CASE-1''), (''userId'', JStr ''u1''),
                                                             (''status'', JStr ''Submitted'')]))
                                    else if c = ''users'' \<and> i = JStr ''u1'' then Inr profile
                                    else Inl unavailable)\<rparr>"

section \<open>Properties of the reply cleaning\<close>

text \<open>Removing every match of a pattern of three equal characters leaves no match behind:
  what remains of a run of that character is shorter than the pattern.\<close>

lemma replace_all_absent: "\<not> contains pat s \<Longrightarrow> replace_all pat s = s"
  by (induction s) auto

lemma replace_all_match:
  "pat \<noteq> [] \<and> prefix pat (c # cs) \<Longrightarrow>
     replace_all pat (c # cs) = replace_all pat (drop (length pat) (c # cs))"
  by simp

lemma replace_all_nomatch:
  "\<not> (pat \<noteq> [] \<and> prefix pat (c # cs)) \<Longrightarrow>
     replace_all pat (c # cs) = c # replace_all pat cs"
  by auto

lemma replace_all_head1:
  "p = [b, b, b] \<Longrightarrow> replace_all p s = b # r \<Longrightarrow> \<exists>t. s = b # t"
proof (induction p s arbitrary: r rule: replace_all.induct)
  case (1 pat)
  then show ?case by simp
next
  case (2 pat c cs)
  show ?case
  proof (cases "pat \<noteq> [] \<and> prefix pat (c # cs)")
    case True
    with 2(3) show ?thesis by (auto simp: prefix_def)
  next
    case False
    with 2(4) have "c = b" by auto
    then show ?thesis by simp
  qed
qed

lemma replace_all_head2:
  "p = [b, b, b] \<Longrightarrow> replace_all p s = b # b # r \<Longrightarrow> \<exists>t. s = b # b # t"
proof (induction p s arbitrary: r rule: replace_all.induct)
  case (1 pat)
  then show ?case by simp
next
  case (2 pat c cs)
  show ?case
  proof (cases "pat \<noteq> [] \<and> prefix pat (c # cs)")
    case True
    with 2(3) show ?thesis by (auto simp: prefix_def)
  next
    case False
    with 2(4) have "c = b" and "replace_all pat cs = b # r" by auto
    with 2(3) show ?thesis using replace_all_head1 by blast
  qed
qed

lemma replace_all_no_prefix:
  "p = [b, b, b] \<Longrightarrow> \<not> prefix p (replace_all p s)"
proof (induction p s rule: replace_all.induct)
  case (1 pat)
  then show ?case by simp
next
  case (2 pat c cs)
  show ?case
  proof (cases "pat \<noteq> [] \<and> prefix pat (c # cs)")
    case True
    then have eq: "replace_all pat (c # cs) = replace_all pat (drop (length pat) (c # cs))"
      by (rule replace_all_match)
    show ?thesis unfolding eq by (rule 2(1) [OF True 2(3)])
  next
    case False
    show ?thesis
    proof
      assume "prefix pat (replace_all pat (c # cs))"
      then have "prefix pat (c # replace_all pat cs)"
        unfolding replace_all_nomatch [OF False] .
      with 2(3) obtain r where cb: "c = b" and "replace_all pat cs = b # b # r"
        by (auto simp: prefix_def)
      with 2(3) obtain t where "cs = b # b # t"
        using replace_all_head2 by blast
      with cb 2(3) have "pat \<noteq> [] \<and> prefix pat (c # cs)" by simp
      with False show False by blast
    qed
  qed
qed

lemma replace_all_fence_free:
  "p = [b, b, b] \<Longrightarrow> \<not> contains p (replace_all p s)"
proof (induction p s rule: replace_all.induct)
  case (1 pat)
  then show ?case by simp
next
  case (2 pat c cs)
  show ?case
  proof (cases "pat \<noteq> [] \<and> prefix pat (c # cs)")
    case True
    then have eq: "replace_all pat (c # cs) = replace_all pat (drop (length pat) (c # cs))"
      by (rule replace_all_match)
    show ?thesis unfolding eq by (rule 2(1) [OF True 2(3)])
  next
    case False
    have "\<not> prefix pat (replace_all pat (c # cs))" using 2(3) by (rule replace_all_no_prefix)
    then have a: "\<not> prefix pat (c # replace_all pat cs)"
      unfolding replace_all_nomatch [OF False] .
    have b: "\<not> contains pat (replace_all pat cs)" by (rule 2(2) [OF False 2(3)])
    from a b have "\<not> contains pat (c # replace_all pat cs)" by simp
    then show ?thesis unfolding replace_all_nomatch [OF False] .
  qed
qed

lemma strip_leading_None:
  "find (\<lambda>w. w \<noteq> [] \<and> prefix w s) ws = None \<Longrightarrow> strip_leading ws s = s"
  by (subst strip_leading.simps) simp

lemma strip_leading_Some:
  "find (\<lambda>w. w \<noteq> [] \<and> prefix w s) ws = Some w \<Longrightarrow>
     strip_leading ws s = strip_leading ws (drop (length w) s)"
  by (subst strip_leading.simps) simp

lemma strip_leading_suffix: "\<exists>a. s = a @ strip_leading ws s"
proof (induction ws s rule: strip_leading.induct)
  case (1 ws s)
  show ?case
  proof (cases "find (\<lambda>w. w \<noteq> [] \<and> prefix w s) ws")
    case None
    then have "s = [] @ strip_leading ws s" by (simp add: strip_leading_None)
    then show ?thesis by (rule exI)
  next
    case (Some w)
    from 1 [OF Some] obtain a where a: "drop (length w) s = a @ strip_leading ws (drop (length w) s)"
      by (rule exE)
    have "s = take (length w) s @ drop (length w) s" by simp
    also have "\<dots> = (take (length w) s @ a) @ strip_leading ws s"
      using a by (simp add: strip_leading_Some [OF Some])
    finally show ?thesis by (rule exI)
  qed
qed

lemma contains_Nil: "contains [] s"
  by (cases s) auto

lemma contains_append_left: "contains p s \<Longrightarrow> contains p (s @ t)"
proof (induction s)
  case Nil
  then show ?case by (simp add: contains_Nil)
next
  case (Cons a s)
  show ?case
  proof (cases "prefix p (a # s)")
    case True
    then have "prefix p ((a # s) @ t)" by (rule prefix_prefix)
    then show ?thesis by simp
  next
    case False
    with Cons show ?thesis by simp
  qed
qed

lemma contains_append_right: "contains p t \<Longrightarrow> contains p (a @ t)"
  by (induction a) auto

lemma contains_trim: "contains p (trim s) \<Longrightarrow> contains p s"
proof -
  assume c: "contains p (trim s)"
  obtain a where a: "s = a @ strip_leading white_space s"
    using strip_leading_suffix by blast
  obtain b where b: "rev (strip_leading white_space s) =
      b @ strip_leading (map rev white_space) (rev (strip_leading white_space s))"
    using strip_leading_suffix by blast
  have "strip_leading white_space s = rev (rev (strip_leading white_space s))" by simp
  also have "\<dots> = trim s @ rev b"
    by (subst b) (simp add: trim_def)
  finally have m: "strip_leading white_space s = trim s @ rev b" .
  from c have "contains p (trim s @ rev b)" by (rule contains_append_left)
  then have "contains p (strip_leading white_space s)" by (simp only: m)
  then have "contains p (a @ strip_leading white_space s)" by (rule contains_append_right)
  with a show ?thesis by simp
qed

lemma cleaned_fence_free: "\<not> contains ''```'' (cleaned t)"
  unfolding cleaned_def
  using contains_trim replace_all_fence_free [of "''```''" "CHR ''`''"] by blast


lemma contains_shorter: "prefix p q \<Longrightarrow> contains q s \<Longrightarrow> contains p s"
proof (induction s)
  case Nil
  then show ?case by (simp add: contains_Nil)
next
  case (Cons a s)
  then show ?case using prefix_order.trans by auto
qed

lemma cleaned_plain: "\<not> contains ''```'' t \<Longrightarrow> cleaned t = trim t"
proof -
  assume a: "\<not> contains ''```'' t"
  have "prefix ''```'' ''```json''" by simp
  with a have "\<not> contains ''```json'' t" using contains_shorter by blast
  with a show ?thesis by (simp add: cleaned_def replace_all_absent)
qed

lemma json_fence_in_body:
  "prefix ''```json'' (s @ ''```'') \<Longrightarrow> prefix ''```'' s"
  by (cases s; cases "tl s"; cases "tl (tl s)") auto

lemma no_json_fence_before_close:
  "\<not> contains ''```'' body \<Longrightarrow> \<not> contains ''```json'' (body @ ''```'')"
proof (induction body)
  case Nil
  then show ?case by simp
next
  case (Cons a body)
  then have "\<not> prefix ''```'' (a # body)" and "\<not> contains ''```json'' (body @ ''```'')" by auto
  moreover have "\<not> prefix ''```json'' ((a # body) @ ''```'')"
    using json_fence_in_body \<open>\<not> prefix ''```'' (a # body)\<close> by blast
  ultimately show ?case by simp
qed

lemma short_before_close:
  "prefix ''```'' (s @ ''```'') \<Longrightarrow> \<not> prefix ''```'' s \<Longrightarrow> s = [] \<or> s = ''`'' \<or> s = ''``''"
  by (cases s; cases "tl s"; cases "tl (tl s)") auto

lemma strip_closing_fence:
  "\<not> contains ''```'' body \<Longrightarrow> replace_all ''```'' (body @ ''```'') = body"
proof (induction body)
  case Nil
  then show ?case by simp
next
  case (Cons a body)
  then have np: "\<not> prefix ''```'' (a # body)" and ih: "replace_all ''```'' (body @ ''```'') = body"
    by auto
  show ?case
  proof (cases "prefix ''```'' ((a # body) @ ''```'')")
    case True
    with np have "a # body = ''`'' \<or> a # body = ''``''" using short_before_close by blast
    then show ?thesis by auto
  next
    case False
    then have "replace_all ''```'' (a # body @ ''```'') = a # replace_all ''```'' (body @ ''```'')"
      using replace_all_nomatch [of "''```''" a "body @ ''```''"] by simp
    with ih show ?thesis by simp
  qed
qed

lemma cleaned_fenced_block:
  assumes "\<not> contains ''```'' body"
  shows "cleaned (''```json'' @ body @ ''```'') = trim body"
proof -
  have "replace_all ''```json'' (''```json'' @ body @ ''```'') = replace_all ''```json'' (body @ ''```'')"
    by simp
  also have "\<dots> = body @ ''```''"
    using assms by (simp add: replace_all_absent no_json_fence_before_close)
  finally show ?thesis using assms by (simp add: cleaned_def strip_closing_fence)
qed

lemma trim_fixed:
  assumes "\<not> starts_with_space s" and "\<not> ends_with_space s"
  shows "trim s = s"
proof -
  from assms(1) have "find (\<lambda>w. w \<noteq> [] \<and> prefix w s) white_space = None"
    by (auto simp: starts_with_space_def list_ex_iff find_None_iff)
  then have a: "strip_leading white_space s = s" by (rule strip_leading_None)
  from assms(2) have "find (\<lambda>w. w \<noteq> [] \<and> prefix w (rev s)) (map rev white_space) = None"
    by (auto simp: ends_with_space_def list_ex_iff find_None_iff suffix_to_prefix)
  then have "strip_leading (map rev white_space) (rev s) = rev s" by (rule strip_leading_None)
  with a show ?thesis by (simp add: trim_def)
qed

section \<open>Login\<close>

lemma find_first_match:
  "(\<forall>x \<in> set pre. \<not> P x) \<Longrightarrow> P u \<Longrightarrow> find P (pre @ u # post) = Some u"
  by (induction pre) auto

text \<open>
  Claim C1, as amended. In \<^verbatim>\<open>loginUser\<close> (first route set) a login whose password does
  not match - in live mode the identity provider rejects the credentials, in mock mode no
  record of \<^verbatim>\<open>MOCK_DB.users\<close> with that email has that password - is answered with
  \<^verbatim>\<open>success: false\<close> and neither a \<^verbatim>\<open>user\<close> nor a \<^verbatim>\<open>token\<close> property.
  The login route of the second route set does not look at the password: its answer is the
  same for every password.
\<close>

theorem loginUser_wrong_password:
  assumes "if IS_FIREBASE_LIVE env then isl (signInWithPassword env email password)
           else \<forall>u \<in> set users. js_prop u ''email'' = JStr email \<longrightarrow> js_prop u ''password'' \<noteq> JStr password"
  shows "js_prop (fst (loginUser env users email password)) ''success'' = JBool False
       \<and> js_prop (fst (loginUser env users email password)) ''user'' = JUndefined
       \<and> js_prop (fst (loginUser env users email password)) ''token'' = JUndefined
       \<and> login2 env \<lparr>lb_email = email, lb_password = password\<rparr>
           = login2 env \<lparr>lb_email = email, lb_password = other\<rparr>"
proof (cases "IS_FIREBASE_LIVE env")
  case True
  with assms obtain e where "signInWithPassword env email password = Inl e"
    by (cases "signInWithPassword env email password") auto
  with True show ?thesis by (simp add: loginUser_def login2_def split: sum.split)
next
  case False
  with assms have "find (\<lambda>u. js_prop u ''email'' = JStr email \<and> js_prop u ''password'' = JStr password) users = None"
    by (auto simp: find_None_iff)
  with False show ?thesis by (simp add: loginUser_def login2_def split: sum.split)
qed

theorem loginUser_wrong_password_witness:
  "isl (signInWithPassword one_account_env ''asha@x.in'' ''guess'')
   \<and> fst (loginUser one_account_env [] ''asha@x.in'' ''guess'')
       = JObj [(''success'', JBool False), (''message'', JStr ''INVALID_PASSWORD'')]
   \<and> js_prop (fst (loginUser one_account_env [] ''asha@x.in'' ''guess'')) ''user'' = JUndefined
   \<and> js_prop (fst (loginUser one_account_env [] ''asha@x.in'' ''guess'')) ''token'' = JUndefined
   \<and> js_prop (fst (loginUser (down_env\<lparr>IS_FIREBASE_LIVE := False\<rparr>)
        [JObj [(''name'', JStr ''Asha''), (''email'', JStr ''asha@x.in''),
               (''password'', JStr ''s3cret''), (''role'', JStr ''Lawyer'')]]
        ''asha@x.in'' ''guess'')) ''user'' = JUndefined"
proof -
  have live: "if IS_FIREBASE_LIVE one_account_env
              then isl (signInWithPassword one_account_env ''asha@x.in'' ''guess'')
              else \<forall>u \<in> set []. js_prop u ''email'' = JStr ''asha@x.in'' \<longrightarrow> js_prop u ''password'' \<noteq> JStr ''guess''"
    by (simp add: one_account_env_def down_env_def)
  have mock: "if IS_FIREBASE_LIVE (down_env\<lparr>IS_FIREBASE_LIVE := False\<rparr>)
              then isl (signInWithPassword (down_env\<lparr>IS_FIREBASE_LIVE := False\<rparr>) ''asha@x.in'' ''guess'')
              else \<forall>u \<in> set [JObj [(''name'', JStr ''Asha''), (''email'', JStr ''asha@x.in''),
                                      (''password'', JStr ''s3cret''), (''role'', JStr ''Lawyer'')]].
                     js_prop u ''email'' = JStr ''asha@x.in'' \<longrightarrow> js_prop u ''password'' \<noteq> JStr ''guess''"
    by simp
  have msg: "fst (loginUser one_account_env [] ''asha@x.in'' ''guess'')
       = JObj [(''success'', JBool False), (''message'', JStr ''INVALID_PASSWORD'')]"
    by (simp add: loginUser_def one_account_env_def down_env_def INVALID_PASSWORD_def or_str_def)
  have rejected: "isl (signInWithPassword one_account_env ''asha@x.in'' ''guess'')"
    by (simp add: one_account_env_def down_env_def)
  show ?thesis
    using loginUser_wrong_password [OF live, of "''guess''"]
      loginUser_wrong_password [OF mock, of "''guess''"] msg rejected
    by simp
qed

text \<open>
  Claim C1 as stated fails on the second route set: the provider rejects the password
  \<^verbatim>\<open>guess\<close> for the account, and \<^verbatim>\<open>POST /api/login\<close> still answers \<^verbatim>\<open>success: true\<close>
  with a session token.
\<close>

theorem login2_wrong_password_counterexample:
  "signInWithPassword one_account_env ''asha@x.in'' ''guess'' = Inl INVALID_PASSWORD
   \<and> fst (login2 one_account_env \<lparr>lb_email = ''asha@x.in'', lb_password = ''guess''\<rparr>)
     = Responded 200 (JObj [(''success'', JBool True), (''token'', JStr ''token-for-u1''),
                            (''userId'', JStr ''u1''),
                            (''message'', JStr ''Login successful (Token generated)'')])"
  by (simp add: one_account_env_def down_env_def login2_def)

text \<open>
  Claim C10. In live mode, when the credential exchange succeeds and the user has no
  profile document, \<^verbatim>\<open>loginUser\<close> answers \<^verbatim>\<open>success: true\<close> with the default profile
  (name \<^verbatim>\<open>User\<close>, role \<^verbatim>\<open>Litigant\<close>, zeroed stats), completed with the uid and the
  email of the request.
\<close>

theorem login_default_profile:
  assumes "IS_FIREBASE_LIVE env"
    and "signInWithPassword env email password = Inr uid"
    and "doc_get env ''users'' (JStr uid) = Inr None"
  shows "fst (loginUser env users email password) =
           JObj [(''success'', JBool True),
                 (''user'', JObj [(''id'', JStr uid), (''name'', JStr ''User''), (''role'', JStr ''Litigant''),
                                  (''stats'', JObj [(''cases'', JNum 0), (''docs'', JNum 0)]),
                                  (''email'', JStr email)])]"
  using assms by (simp add: loginUser_def default_profile_def spread_def)

theorem login_default_profile_witness:
  "IS_FIREBASE_LIVE one_account_env
   \<and> signInWithPassword one_account_env ''asha@x.in'' ''s3cret'' = Inr ''u1''
   \<and> doc_get one_account_env ''users'' (JStr ''u1'') = Inr None
   \<and> fst (loginUser one_account_env [] ''asha@x.in'' ''s3cret'') =
           JObj [(''success'', JBool True),
                 (''user'', JObj [(''id'', JStr ''u1''), (''name'', JStr ''User''), (''role'', JStr ''Litigant''),
                                  (''stats'', JObj [(''cases'', JNum 0), (''docs'', JNum 0)]),
                                  (''email'', JStr ''asha@x.in'')])]"
proof -
  have a: "IS_FIREBASE_LIVE one_account_env"
    and b: "signInWithPassword one_account_env ''asha@x.in'' ''s3cret'' = Inr ''u1''"
    and c: "doc_get one_account_env ''users'' (JStr ''u1'') = Inr None"
    by (simp_all add: one_account_env_def down_env_def)
  from a b c login_default_profile [OF a b c, of "[]"] show ?thesis by simp
qed

text \<open>
  Claim C9, as amended. In mock mode \<^verbatim>\<open>registerUser\<close> appends the record
  \<^verbatim>\<open>{name, email, password, role}\<close>, with the password as submitted, to \<^verbatim>\<open>MOCK_DB.users\<close>.
  A mock login succeeds exactly when some stored record has the submitted email and
  password, and it then returns, as \<^verbatim>\<open>user\<close>, the first such record in the order of
  registration, whole, password included. That is the record of a given registration when
  no record registered before it has the same email and password, whatever is registered
  afterwards; a registration that repeats the credentials of an earlier one is never
  returned.
\<close>

theorem mock_login_returns_first_match:
  assumes "\<not> IS_FIREBASE_LIVE env"
  shows "registerUser env users name email password role =
           ((JObj [(''success'', JBool True), (''message'', JStr ''Mock Registered'')],
             users @ [JObj [(''name'', JStr name), (''email'', JStr email),
                            (''password'', JStr password), (''role'', JStr role)]]),
            [])
       \<and> ((\<forall>x \<in> set pre. \<not> (js_prop x ''email'' = JStr email \<and> js_prop x ''password'' = JStr password))
            \<and> js_prop u ''email'' = JStr email \<and> js_prop u ''password'' = JStr password \<longrightarrow>
            loginUser env (pre @ u # post) email password =
              (JObj [(''success'', JBool True), (''user'', u)], []))
       \<and> ((\<forall>x \<in> set users. \<not> (js_prop x ''email'' = JStr email \<and> js_prop x ''password'' = JStr password)) \<longrightarrow>
            loginUser env
              (users @ JObj [(''name'', JStr name), (''email'', JStr email),
                             (''password'', JStr password), (''role'', JStr role)] # later)
              email password =
              (JObj [(''success'', JBool True),
                     (''user'', JObj [(''name'', JStr name), (''email'', JStr email),
                                      (''password'', JStr password), (''role'', JStr role)])], []))
       \<and> ((\<forall>x \<in> set us. \<not> (js_prop x ''email'' = JStr email \<and> js_prop x ''password'' = JStr password)) \<longrightarrow>
            loginUser env us email password =
              (JObj [(''success'', JBool False), (''message'', JStr ''Invalid Credentials'')], []))"
proof -
  let ?P = "\<lambda>x. js_prop x ''email'' = JStr email \<and> js_prop x ''password'' = JStr password"
  let ?r = "JObj [(''name'', JStr name), (''email'', JStr email),
                  (''password'', JStr password), (''role'', JStr role)]"
  have login: "loginUser env l email password =
        (case find ?P l of
           Some user \<Rightarrow> (JObj [(''success'', JBool True), (''user'', user)], [])
         | None \<Rightarrow> (JObj [(''success'', JBool False), (''message'', JStr ''Invalid Credentials'')], []))" for l
    using assms by (simp add: loginUser_def)
  have a: "registerUser env users name email password role =
           ((JObj [(''success'', JBool True), (''message'', JStr ''Mock Registered'')], users @ [?r]), [])"
    using assms by (simp add: registerUser_def)
  have b: "loginUser env (pre @ u # post) email password =
              (JObj [(''success'', JBool True), (''user'', u)], [])"
    if "\<forall>x \<in> set pre. \<not> ?P x" and "?P u"
  proof -
    have "find ?P (pre @ u # post) = Some u"
      by (rule find_first_match [of pre ?P u post, OF that])
    then show ?thesis by (simp only: login option.case)
  qed
  have c: "loginUser env (users @ ?r # later) email password =
              (JObj [(''success'', JBool True), (''user'', ?r)], [])"
    if "\<forall>x \<in> set users. \<not> ?P x"
  proof -
    have r: "?P ?r" by simp
    have "find ?P (users @ ?r # later) = Some ?r"
      by (rule find_first_match [of users ?P ?r later, OF that r])
    then show ?thesis by (simp only: login option.case)
  qed
  have d: "loginUser env us email password =
              (JObj [(''success'', JBool False), (''message'', JStr ''Invalid Credentials'')], [])"
    if "\<forall>x \<in> set us. \<not> ?P x"
  proof -
    from that have "find ?P us = None" by (simp add: find_None_iff)
    then show ?thesis by (simp only: login option.case)
  qed
  from a b c d show ?thesis by simp
qed

theorem mock_login_returns_first_match_witness:
  "\<not> IS_FIREBASE_LIVE (down_env\<lparr>IS_FIREBASE_LIVE := False\<rparr>)
   \<and> snd (fst (registerUser (down_env\<lparr>IS_FIREBASE_LIVE := False\<rparr>) [] ''Asha'' ''asha@x.in'' ''s3cret'' ''Lawyer''))
       = [JObj [(''name'', JStr ''Asha''), (''email'', JStr ''asha@x.in''),
                (''password'', JStr ''s3cret''), (''role'', JStr ''Lawyer'')]]
   \<and> loginUser (down_env\<lparr>IS_FIREBASE_LIVE := False\<rparr>)
        [JObj [(''name'', JStr ''Asha''), (''email'', JStr ''asha@x.in''),
               (''password'', JStr ''s3cret''), (''role'', JStr ''Lawyer'')],
         JObj [(''name'', JStr ''Ravi''), (''email'', JStr ''ravi@x.in''),
               (''password'', JStr ''pw2''), (''role'', JStr ''Litigant'')]]
        ''asha@x.in'' ''s3cret''
     = (JObj [(''success'', JBool True),
              (''user'', JObj [(''name'', JStr ''Asha''), (''email'', JStr ''asha@x.in''),
                               (''password'', JStr ''s3cret''), (''role'', JStr ''Lawyer'')])], [])
   \<and> loginUser (down_env\<lparr>IS_FIREBASE_LIVE := False\<rparr>)
        [JObj [(''name'', JStr ''Asha''), (''email'', JStr ''asha@x.in''),
               (''password'', JStr ''s3cret''), (''role'', JStr ''Lawyer'')]]
        ''asha@x.in'' ''guess''
     = (JObj [(''success'', JBool False), (''message'', JStr ''Invalid Credentials'')], [])"
proof -
  let ?M = "down_env\<lparr>IS_FIREBASE_LIVE := False\<rparr>"
  let ?a = "JObj [(''name'', JStr ''Asha''), (''email'', JStr ''asha@x.in''),
                  (''password'', JStr ''s3cret''), (''role'', JStr ''Lawyer'')]"
  let ?b = "JObj [(''name'', JStr ''Ravi''), (''email'', JStr ''ravi@x.in''),
                  (''password'', JStr ''pw2''), (''role'', JStr ''Litigant'')]"
  have mock: "\<not> IS_FIREBASE_LIVE ?M" by simp
  note A = mock_login_returns_first_match [OF mock, where users = "[]" and name = "''Asha''"
             and email = "''asha@x.in''" and password = "''s3cret''" and role = "''Lawyer''"
             and pre = "[]" and u = ?a and post = "[?b]" and later = "[?b]" and us = "[]"]
  note B = mock_login_returns_first_match [OF mock, where users = "[]" and name = "''Asha''"
             and email = "''asha@x.in''" and password = "''guess''" and role = "''Lawyer''"
             and pre = "[]" and u = ?a and post = "[]" and later = "[]" and us = "[?a]"]
  from A have r: "snd (fst (registerUser ?M [] ''Asha'' ''asha@x.in'' ''s3cret'' ''Lawyer'')) = [?a]"
    by simp
  from A have l: "loginUser ?M [?a, ?b] ''asha@x.in'' ''s3cret'' =
       (JObj [(''success'', JBool True), (''user'', ?a)], [])"
    by simp
  from B have n: "loginUser ?M [?a] ''asha@x.in'' ''guess'' =
       (JObj [(''success'', JBool False), (''message'', JStr ''Invalid Credentials'')], [])"
    by simp
  from mock r l n show ?thesis by simp
qed

text \<open>
  Claim C9 as stated fails when the credentials were registered before: after Asha and then
  Bina register with the same email and password, Bina's record is stored, and a login with
  these credentials succeeds, but it returns Asha's record.
\<close>

theorem mock_login_duplicate_counterexample:
  "snd (fst (registerUser (down_env\<lparr>IS_FIREBASE_LIVE := False\<rparr>)
          (snd (fst (registerUser (down_env\<lparr>IS_FIREBASE_LIVE := False\<rparr>) []
                       ''Asha'' ''asha@x.in'' ''s3cret'' ''Lawyer'')))
          ''Bina'' ''asha@x.in'' ''s3cret'' ''Litigant''))
     = [JObj [(''name'', JStr ''Asha''), (''email'', JStr ''asha@x.in''),
              (''password'', JStr ''s3cret''), (''role'', JStr ''Lawyer'')],
        JObj [(''name'', JStr ''Bina''), (''email'', JStr ''asha@x.in''),
              (''password'', JStr ''s3cret''), (''role'', JStr ''Litigant'')]]
   \<and> fst (loginUser (down_env\<lparr>IS_FIREBASE_LIVE := False\<rparr>)
        [JObj [(''name'', JStr ''Asha''), (''email'', JStr ''asha@x.in''),
               (''password'', JStr ''s3cret''), (''role'', JStr ''Lawyer'')],
         JObj [(''name'', JStr ''Bina''), (''email'', JStr ''asha@x.in''),
               (''password'', JStr ''s3cret''), (''role'', JStr ''Litigant'')]]
        ''asha@x.in'' ''s3cret'')
     = JObj [(''success'', JBool True),
             (''user'', JObj [(''name'', JStr ''Asha''), (''email'', JStr ''asha@x.in''),
                              (''password'', JStr ''s3cret''), (''role'', JStr ''Lawyer'')])]
   \<and> JObj [(''name'', JStr ''Asha''), (''email'', JStr ''asha@x.in''),
            (''password'', JStr ''s3cret''), (''role'', JStr ''Lawyer'')]
     \<noteq> JObj [(''name'', JStr ''Bina''), (''email'', JStr ''asha@x.in''),
              (''password'', JStr ''s3cret''), (''role'', JStr ''Litigant'')]"
  by (simp add: registerUser_def loginUser_def)


section \<open>Fenced replies\<close>

text \<open>
  Claim C8, as amended. For every reply text \<open>t\<close> of the model, the text handed to
  \<^verbatim>\<open>JSON.parse\<close> is \<open>cleaned t\<close>, the reply with every fence marker removed and then
  trimmed: it contains neither \<^verbatim>\<open>```\<close> nor \<^verbatim>\<open>```json\<close>. Whenever that text parses,
  \<^verbatim>\<open>processDocument\<close> and \<^verbatim>\<open>analyzeCase\<close> return the parsed value, on the SDK path and on
  the REST path (for \<^verbatim>\<open>analyzeCase\<close>, when the submitted value converts to a string \<open>s\<close>). For
  a reply that consists of one fenced block \<^verbatim>\<open>```json body ```\<close>, whose body has no fence
  marker, the parsed text is the trimmed body, so the result is the parse of the fenced
  content. Text outside the fence is kept.
\<close>

theorem fenced_reply_is_parsed:
  "\<not> contains ''```'' (cleaned t) \<and> \<not> contains ''```json'' (cleaned t)
   \<and> (\<not> contains ''```'' body \<longrightarrow> cleaned (''```json'' @ body @ ''```'') = trim body)
   \<and> (configured (GEMINI_API_KEY env) \<longrightarrow> JSON_parse env (cleaned t) = Inr v \<longrightarrow>
        (sdk_text env ''gemini-2.0-flash'' (DocumentRequest buffer ''application/pdf'' document_prompt) = Inr t
           \<and> t \<noteq> [] \<longrightarrow> fst (processDocument env buffer) = Inr v)
      \<and> (fst (processDocument_sdk env buffer) = None
           \<and> rest_text env (DocumentRequest buffer ''application/pdf'' document_prompt) = Inr t
           \<longrightarrow> fst (processDocument env buffer) = Inr v)
      \<and> (to_string facts = Inr s
           \<and> sdk_text env ''gemini-2.0-flash'' (TextRequest (swot_prompt s)) = Inr t
           \<and> t \<noteq> [] \<longrightarrow> fst (analyzeCase env facts) = Inr v)
      \<and> (to_string facts = Inr s
           \<and> fst (analyzeCase_sdk env s) = None
           \<and> rest_text env (TextRequest (swot_prompt s)) = Inr t
           \<longrightarrow> fst (analyzeCase env facts) = Inr v))"
proof -
  have a: "\<not> contains ''```'' (cleaned t)" by (rule cleaned_fence_free)
  have "prefix ''```'' ''```json''" by simp
  with a have b: "\<not> contains ''```json'' (cleaned t)" using contains_shorter by blast
  have c: "\<not> contains ''```'' body \<longrightarrow> cleaned (''```json'' @ body @ ''```'') = trim body"
    using cleaned_fenced_block by blast
  have d: "configured (GEMINI_API_KEY env) \<Longrightarrow> JSON_parse env (cleaned t) = Inr v \<Longrightarrow>
      sdk_text env ''gemini-2.0-flash'' (DocumentRequest buffer ''application/pdf'' document_prompt) = Inr t
      \<Longrightarrow> t \<noteq> [] \<Longrightarrow> fst (processDocument env buffer) = Inr v"
    by (simp add: processDocument_def processDocument_sdk_def genAI_def)
  have e: "configured (GEMINI_API_KEY env) \<Longrightarrow> JSON_parse env (cleaned t) = Inr v \<Longrightarrow>
      fst (processDocument_sdk env buffer) = None \<Longrightarrow>
      rest_text env (DocumentRequest buffer ''application/pdf'' document_prompt) = Inr t
      \<Longrightarrow> fst (processDocument env buffer) = Inr v"
    by (cases "processDocument_sdk env buffer") (simp add: processDocument_def processDocument_rest_def)
  have f: "configured (GEMINI_API_KEY env) \<Longrightarrow> JSON_parse env (cleaned t) = Inr v \<Longrightarrow>
      to_string facts = Inr s \<Longrightarrow>
      sdk_text env ''gemini-2.0-flash'' (TextRequest (swot_prompt s)) = Inr t
      \<Longrightarrow> t \<noteq> [] \<Longrightarrow> fst (analyzeCase env facts) = Inr v"
    by (simp add: analyzeCase_def analyzeCase_sdk_def genAI_def)
  have g: "configured (GEMINI_API_KEY env) \<Longrightarrow> JSON_parse env (cleaned t) = Inr v \<Longrightarrow>
      to_string facts = Inr s \<Longrightarrow>
      fst (analyzeCase_sdk env s) = None \<Longrightarrow>
      rest_text env (TextRequest (swot_prompt s)) = Inr t
      \<Longrightarrow> fst (analyzeCase env facts) = Inr v"
    by (cases "analyzeCase_sdk env s") (simp add: analyzeCase_def analyzeCase_rest_def)
  show ?thesis using a b c d e f g by simp
qed

lemma cleaned_example: "cleaned ''```json\<newline>{}\<newline>```'' = ''{}''"
  by (simp add: cleaned_def trim_def strip_leading.simps white_space_def)

theorem fenced_reply_is_parsed_witness:
  "configured (GEMINI_API_KEY (sdk_env ''```json\<newline>{}\<newline>```''))
   \<and> JSON_parse (sdk_env ''```json\<newline>{}\<newline>```'') (cleaned ''```json\<newline>{}\<newline>```'') = Inr (JObj [])
   \<and> sdk_text (sdk_env ''```json\<newline>{}\<newline>```'') ''gemini-2.0-flash''
         (DocumentRequest ''%PDF'' ''application/pdf'' document_prompt) = Inr ''```json\<newline>{}\<newline>```''
   \<and> to_string (JStr ''facts'') = Inr ''facts''
   \<and> fst (processDocument (sdk_env ''```json\<newline>{}\<newline>```'') ''%PDF'') = Inr (JObj [])
   \<and> fst (analyzeCase (sdk_env ''```json\<newline>{}\<newline>```'') (JStr ''facts'')) = Inr (JObj [])
   \<and> fst (processDocument_sdk (rest_env ''```json\<newline>{}\<newline>```'') ''%PDF'') = None
   \<and> fst (analyzeCase_sdk (rest_env ''```json\<newline>{}\<newline>```'') ''facts'') = None
   \<and> fst (processDocument (rest_env ''```json\<newline>{}\<newline>```'') ''%PDF'') = Inr (JObj [])
   \<and> fst (analyzeCase (rest_env ''```json\<newline>{}\<newline>```'') (JStr ''facts'')) = Inr (JObj [])
   \<and> \<not> contains ''```'' ''\<newline>{}\<newline>''
   \<and> cleaned ''```json\<newline>{}\<newline>```'' = trim ''\<newline>{}\<newline>''"
proof -
  let ?R = "''```json\<newline>{}\<newline>```''"
  have k1: "configured (GEMINI_API_KEY (sdk_env ?R))"
    and k2: "configured (GEMINI_API_KEY (rest_env ?R))"
    by (simp_all add: sdk_env_def rest_env_def configured_def)
  have p1: "JSON_parse (sdk_env ?R) (cleaned ?R) = Inr (JObj [])"
    and p2: "JSON_parse (rest_env ?R) (cleaned ?R) = Inr (JObj [])"
    by (simp_all add: cleaned_example sdk_env_def rest_env_def parse_braces_def)
  have s1: "sdk_text (sdk_env ?R) ''gemini-2.0-flash''
              (DocumentRequest ''%PDF'' ''application/pdf'' document_prompt) = Inr ?R"
    and s2: "sdk_text (sdk_env ?R) ''gemini-2.0-flash'' (TextRequest (swot_prompt ''facts'')) = Inr ?R"
    by (simp_all add: sdk_env_def)
  have r1: "rest_text (rest_env ?R) (DocumentRequest ''%PDF'' ''application/pdf'' document_prompt) = Inr ?R"
    and r2: "rest_text (rest_env ?R) (TextRequest (swot_prompt ''facts'')) = Inr ?R"
    by (simp_all add: rest_env_def)
  have f1: "fst (processDocument_sdk (rest_env ?R) ''%PDF'') = None"
    by (simp add: processDocument_sdk_def rest_env_def down_env_def)
  have f2: "fst (analyzeCase_sdk (rest_env ?R) ''facts'') = None"
    by (simp add: analyzeCase_sdk_def rest_env_def down_env_def)
  have ts: "to_string (JStr ''facts'') = Inr ''facts''" by (simp add: to_string_def)
  have nb: "\<not> contains ''```'' ''\<newline>{}\<newline>''" by simp
  have ne: "?R \<noteq> []" by simp
  note A = fenced_reply_is_parsed [where t = ?R and env = "sdk_env ?R" and v = "JObj []"
             and buffer = "''%PDF''" and facts = "JStr ''facts''" and s = "''facts''"
             and body = "''\<newline>{}\<newline>''"]
  note B = fenced_reply_is_parsed [where t = ?R and env = "rest_env ?R" and v = "JObj []"
             and buffer = "''%PDF''" and facts = "JStr ''facts''" and s = "''facts''"
             and body = "''\<newline>{}\<newline>''"]
  show ?thesis using A B k1 k2 p1 p2 s1 s2 r1 r2 f1 f2 ts nb ne by simp
qed

text \<open>
  Claim C8 as stated fails for a reply that has text around the fenced block: the markers
  are removed, the surrounding text stays, the parse fails, and \<^verbatim>\<open>processDocument\<close> returns
  its fallback object instead of the parse of the fenced content (here \<^verbatim>\<open>{}\<close>).
\<close>

theorem text_around_fence_counterexample:
  "contains ''```json'' ''Here:```json{}```''
   \<and> cleaned ''Here:```json{}```'' = ''Here:{}''
   \<and> parse_braces ''{}'' = Inr (JObj [])
   \<and> fst (processDocument (sdk_env ''Here:```json{}```'') ''%PDF'') =
       Inr (JObj [(''summary'', JStr ''AI returned non-JSON output (SDK). Raw: Here:{}''),
                  (''facts'', JStr ''''), (''judgments'', JArr []), (''solutions'', JArr [])])"
proof -
  have c: "cleaned ''Here:```json{}```'' = ''Here:{}''"
    by (simp add: cleaned_def trim_def strip_leading.simps white_space_def)
  have p: "fst (processDocument (sdk_env ''Here:```json{}```'') ''%PDF'') =
       Inr (JObj [(''summary'', JStr ''AI returned non-JSON output (SDK). Raw: Here:{}''),
                  (''facts'', JStr ''''), (''judgments'', JArr []), (''solutions'', JArr [])])"
    by (simp add: processDocument_def processDocument_sdk_def genAI_def sdk_env_def down_env_def
          configured_def c parse_braces_def defaultErrorResponse_document_def)
  from c p show ?thesis by (simp add: parse_braces_def)
qed

section \<open>Judgment search\<close>

text \<open>
  Claim C3, as amended. In \<^verbatim>\<open>searchJudgments\<close> (first route set, \<^verbatim>\<open>POST /api/search\<close>), when
  the search token is absent, or the upstream call throws, or its reply has no list of
  documents to map over, the result is exactly the two-item fallback list.
\<close>

theorem searchJudgments_fallback:
  assumes "\<not> configured (INDIAN_KANOON_TOKEN env) \<or> isl (kanoon_search env query)
           \<or> kanoon_search env query = Inr None"
  shows "fst (searchJudgments env query) =
           [JObj [(''title'', JStr ''Kesavananda Bharati v. State of Kerala''),
                  (''court'', JStr ''Supreme Court''), (''link'', JStr ''#'')],
            JObj [(''title'', JStr ''Vishaka v. State of Rajasthan''),
                  (''court'', JStr ''Supreme Court''), (''link'', JStr ''#'')]]"
proof (cases "configured (INDIAN_KANOON_TOKEN env)")
  case False
  then show ?thesis by (simp add: searchJudgments_def fallback_judgments_def)
next
  case True
  with assms have "isl (kanoon_search env query) \<or> kanoon_search env query = Inr None" by simp
  then show ?thesis
    by (cases "kanoon_search env query")
       (auto simp: searchJudgments_def fallback_judgments_def True)
qed

theorem searchJudgments_fallback_witness:
  "\<not> configured (INDIAN_KANOON_TOKEN down_env)
   \<and> fst (searchJudgments down_env ''basic structure'') =
           [JObj [(''title'', JStr ''Kesavananda Bharati v. State of Kerala''),
                  (''court'', JStr ''Supreme Court''), (''link'', JStr ''#'')],
            JObj [(''title'', JStr ''Vishaka v. State of Rajasthan''),
                  (''court'', JStr ''Supreme Court''), (''link'', JStr ''#'')]]
   \<and> configured (INDIAN_KANOON_TOKEN (down_env\<lparr>INDIAN_KANOON_TOKEN := Some ''tok''\<rparr>))
   \<and> isl (kanoon_search (down_env\<lparr>INDIAN_KANOON_TOKEN := Some ''tok''\<rparr>) ''basic structure'')
   \<and> fst (searchJudgments (down_env\<lparr>INDIAN_KANOON_TOKEN := Some ''tok''\<rparr>) ''basic structure'') =
           [JObj [(''title'', JStr ''Kesavananda Bharati v. State of Kerala''),
                  (''court'', JStr ''Supreme Court''), (''link'', JStr ''#'')],
            JObj [(''title'', JStr ''Vishaka v. State of Rajasthan''),
                  (''court'', JStr ''Supreme Court''), (''link'', JStr ''#'')]]"
proof -
  have absent: "\<not> configured (INDIAN_KANOON_TOKEN down_env)"
    by (simp add: down_env_def configured_def)
  have present: "configured (INDIAN_KANOON_TOKEN (down_env\<lparr>INDIAN_KANOON_TOKEN := Some ''tok''\<rparr>))"
    by (simp add: configured_def)
  have failing: "isl (kanoon_search (down_env\<lparr>INDIAN_KANOON_TOKEN := Some ''tok''\<rparr>) ''basic structure'')"
    by (simp add: down_env_def)
  have a: "\<not> configured (INDIAN_KANOON_TOKEN down_env) \<or> isl (kanoon_search down_env ''basic structure'')
           \<or> kanoon_search down_env ''basic structure'' = Inr None"
    using absent by (rule disjI1)
  have b: "\<not> configured (INDIAN_KANOON_TOKEN (down_env\<lparr>INDIAN_KANOON_TOKEN := Some ''tok''\<rparr>))
           \<or> isl (kanoon_search (down_env\<lparr>INDIAN_KANOON_TOKEN := Some ''tok''\<rparr>) ''basic structure'')
           \<or> kanoon_search (down_env\<lparr>INDIAN_KANOON_TOKEN := Some ''tok''\<rparr>) ''basic structure'' = Inr None"
    using failing by simp
  show ?thesis
    using searchJudgments_fallback [OF a] searchJudgments_fallback [OF b] absent present failing
    by simp
qed

text \<open>
  Claim C3 as stated fails on the second route set: in live mode
  \<^verbatim>\<open>POST /api/ai/legal-research\<close> answers an absent token and a failed upstream call with
  status 500 and an error message, not with the fallback list.
\<close>

theorem legal_research2_error_counterexample:
  "\<not> configured (INDIAN_KANOON_TOKEN writable_env)
   \<and> fst (legal_research2 writable_env (Some ''Bearer abc'') ''basic structure'')
       = Responded 500 (JObj [(''success'', JBool False),
                              (''message'', JStr ''INDIAN_KANOON_TOKEN not configured.'')])
   \<and> isl (kanoon_search (writable_env\<lparr>INDIAN_KANOON_TOKEN := Some ''tok''\<rparr>) ''basic structure'')
   \<and> fst (legal_research2 (writable_env\<lparr>INDIAN_KANOON_TOKEN := Some ''tok''\<rparr>) (Some ''Bearer abc'') ''basic structure'')
       = Responded 500 (JObj [(''success'', JBool False),
            (''message'', JStr ''Legal research failed. Check if Indian Kanoon Token is valid.'')])"
  by (simp add: legal_research2_def with_verifyToken_def verifyToken_def split_second_def
        legal_research_handler_def writable_env_def down_env_def configured_def unavailable_def)

section \<open>Replies that do not parse\<close>

lemma processDocument_returns: "\<exists>v. fst (processDocument env buffer) = Inr v"
  by (cases "processDocument_sdk env buffer"; cases "fst (processDocument_sdk env buffer)")
     (simp_all add: processDocument_def)

lemma analyzeCase_throws:
  assumes "configured (GEMINI_API_KEY env)" and "\<not> convertible text"
  shows "analyzeCase env text = (Inl (TypeError ''Cannot convert object to primitive value''), [])"
  using assms by (simp add: analyzeCase_def to_string_def)

lemma analyzeCase_returns:
  assumes "\<not> configured (GEMINI_API_KEY env) \<or> convertible text"
  shows "\<exists>v. fst (analyzeCase env text) = Inr v"
proof (cases "configured (GEMINI_API_KEY env)")
  case False
  then show ?thesis by (simp add: analyzeCase_def)
next
  case True
  with assms have "to_string text = Inr (js_String text)" by (simp add: to_string_def)
  with True show ?thesis
    by (cases "analyzeCase_sdk env (js_String text)"; cases "fst (analyzeCase_sdk env (js_String text))")
       (simp_all add: analyzeCase_def)
qed

lemma cleaned_unchanged:
  assumes "\<not> contains ''```'' t" and "\<not> starts_with_space t" and "\<not> ends_with_space t"
  shows "cleaned t = t"
  using assms by (simp add: cleaned_plain trim_fixed)

lemma analyzeCase_rest_failure:
  assumes "rest_text env (TextRequest (swot_prompt s)) = Inl e
           \<or> (\<exists>t. rest_text env (TextRequest (swot_prompt s)) = Inr t \<and> JSON_parse env (cleaned t) = Inl e)"
  shows "fst (analyzeCase_rest env text s) =
           JObj [(''summary'', JStr (''Analysis Failed: '' @
                    or_str (e_response_message e) (or_str (Some (e_message e)) ''unknown''))),
                 (''facts'', text), (''strengths'', JArr []), (''weaknesses'', JArr [])]"
  using assms by (auto simp: analyzeCase_rest_def defaultErrorResponse_swot_def)

text \<open>
  Claim C4, as amended. \<^verbatim>\<open>processDocument\<close> never throws to its caller. \<^verbatim>\<open>analyzeCase\<close>
  throws in one case only, before any call of the model: the key is set and the submitted
  value cannot be converted to a string for the prompt; in every other case it returns.
  When the reply text of the model does not parse, \<^verbatim>\<open>processDocument\<close> returns the object
  \<^verbatim>\<open>{summary, facts: "", judgments: [], solutions: []}\<close> whose summary is the explanatory
  prefix followed by the cleaned reply (fence markers removed, trimmed), which is the reply
  itself when it has no fence marker and no white space at its ends. When \<^verbatim>\<open>analyzeCase\<close>
  gets no parsed reply from the SDK path, and the REST call fails or its reply does not
  parse, it returns \<^verbatim>\<open>{summary, facts, strengths: [], weaknesses: []}\<close> with the
  submitted value as facts and with the summary \<^verbatim>\<open>Analysis Failed: \<close> followed by the
  message of the error caught, which for a reply that does not parse is the message of
  \<^verbatim>\<open>JSON.parse\<close>.
\<close>

theorem unparsable_reply_soft_fails:
  "(\<exists>v. fst (processDocument env buffer) = Inr v)
   \<and> (configured (GEMINI_API_KEY env) \<and> \<not> convertible facts \<longrightarrow>
        analyzeCase env facts = (Inl (TypeError ''Cannot convert object to primitive value''), []))
   \<and> (\<not> configured (GEMINI_API_KEY env) \<or> convertible facts \<longrightarrow>
        (\<exists>v. fst (analyzeCase env facts) = Inr v))
   \<and> (configured (GEMINI_API_KEY env) \<longrightarrow> isl (JSON_parse env (cleaned t)) \<longrightarrow>
        (sdk_text env ''gemini-2.0-flash'' (DocumentRequest buffer ''application/pdf'' document_prompt) = Inr t
           \<and> t \<noteq> [] \<longrightarrow>
         fst (processDocument env buffer) =
           Inr (JObj [(''summary'', JStr (''AI returned non-JSON output (SDK). Raw: '' @ cleaned t)),
                      (''facts'', JStr ''''), (''judgments'', JArr []), (''solutions'', JArr [])]))
      \<and> (fst (processDocument_sdk env buffer) = None
           \<and> rest_text env (DocumentRequest buffer ''application/pdf'' document_prompt) = Inr t \<longrightarrow>
         fst (processDocument env buffer) =
           Inr (JObj [(''summary'', JStr (''AI returned non-JSON (REST). Raw: '' @ cleaned t)),
                      (''facts'', JStr ''''), (''judgments'', JArr []), (''solutions'', JArr [])])))
   \<and> (\<not> contains ''```'' t \<and> \<not> starts_with_space t \<and> \<not> ends_with_space t \<longrightarrow> cleaned t = t)
   \<and> (configured (GEMINI_API_KEY env) \<and> to_string facts = Inr s
        \<and> fst (analyzeCase_sdk env s) = None
        \<and> (rest_text env (TextRequest (swot_prompt s)) = Inl e
            \<or> (\<exists>t. rest_text env (TextRequest (swot_prompt s)) = Inr t
                   \<and> JSON_parse env (cleaned t) = Inl e))
        \<longrightarrow> fst (analyzeCase env facts) =
              Inr (JObj [(''summary'', JStr (''Analysis Failed: '' @
                            or_str (e_response_message e) (or_str (Some (e_message e)) ''unknown''))),
                         (''facts'', facts), (''strengths'', JArr []), (''weaknesses'', JArr [])]))"
proof -
  have b: "configured (GEMINI_API_KEY env) \<Longrightarrow> \<not> convertible facts \<Longrightarrow>
        analyzeCase env facts = (Inl (TypeError ''Cannot convert object to primitive value''), [])"
    by (rule analyzeCase_throws)
  have c: "\<not> configured (GEMINI_API_KEY env) \<or> convertible facts \<Longrightarrow>
        \<exists>v. fst (analyzeCase env facts) = Inr v"
    by (rule analyzeCase_returns)
  have d: "configured (GEMINI_API_KEY env) \<Longrightarrow> isl (JSON_parse env (cleaned t)) \<Longrightarrow>
      sdk_text env ''gemini-2.0-flash'' (DocumentRequest buffer ''application/pdf'' document_prompt) = Inr t
      \<Longrightarrow> t \<noteq> [] \<Longrightarrow>
      fst (processDocument env buffer) =
           Inr (JObj [(''summary'', JStr (''AI returned non-JSON output (SDK). Raw: '' @ cleaned t)),
                      (''facts'', JStr ''''), (''judgments'', JArr []), (''solutions'', JArr [])])"
    by (cases "JSON_parse env (cleaned t)")
       (simp_all add: processDocument_def processDocument_sdk_def genAI_def defaultErrorResponse_document_def)
  have e: "configured (GEMINI_API_KEY env) \<Longrightarrow> isl (JSON_parse env (cleaned t)) \<Longrightarrow>
      fst (processDocument_sdk env buffer) = None \<Longrightarrow>
      rest_text env (DocumentRequest buffer ''application/pdf'' document_prompt) = Inr t \<Longrightarrow>
      fst (processDocument env buffer) =
           Inr (JObj [(''summary'', JStr (''AI returned non-JSON (REST). Raw: '' @ cleaned t)),
                      (''facts'', JStr ''''), (''judgments'', JArr []), (''solutions'', JArr [])])"
    by (cases "JSON_parse env (cleaned t)"; cases "processDocument_sdk env buffer")
       (simp_all add: processDocument_def processDocument_rest_def defaultErrorResponse_document_def)
  have f: "\<not> contains ''```'' t \<Longrightarrow> \<not> starts_with_space t \<Longrightarrow> \<not> ends_with_space t \<Longrightarrow> cleaned t = t"
    by (rule cleaned_unchanged)
  have g: "fst (analyzeCase env facts) =
              Inr (JObj [(''summary'', JStr (''Analysis Failed: '' @
                            or_str (e_response_message e) (or_str (Some (e_message e)) ''unknown''))),
                         (''facts'', facts), (''strengths'', JArr []), (''weaknesses'', JArr [])])"
    if k: "configured (GEMINI_API_KEY env)" and ts: "to_string facts = Inr s"
      and sdk: "fst (analyzeCase_sdk env s) = None"
      and r: "rest_text env (TextRequest (swot_prompt s)) = Inl e
            \<or> (\<exists>t. rest_text env (TextRequest (swot_prompt s)) = Inr t
                   \<and> JSON_parse env (cleaned t) = Inl e)"
  proof -
    note R = analyzeCase_rest_failure [of env s e facts, OF r]
    from k ts sdk have "fst (analyzeCase env facts) = Inr (fst (analyzeCase_rest env facts s))"
      by (cases "analyzeCase_sdk env s") (simp add: analyzeCase_def)
    with R show ?thesis by simp
  qed
  show ?thesis
    using processDocument_returns [of env buffer] b c d e f g
    by simp
qed

theorem unparsable_reply_soft_fails_witness:
  "configured (GEMINI_API_KEY (sdk_env ''Sorry, no.''))
   \<and> isl (JSON_parse (sdk_env ''Sorry, no.'') (cleaned ''Sorry, no.''))
   \<and> sdk_text (sdk_env ''Sorry, no.'') ''gemini-2.0-flash''
        (DocumentRequest ''%PDF'' ''application/pdf'' document_prompt) = Inr ''Sorry, no.''
   \<and> fst (processDocument (sdk_env ''Sorry, no.'') ''%PDF'') =
        Inr (JObj [(''summary'', JStr ''AI returned non-JSON output (SDK). Raw: Sorry, no.''),
                   (''facts'', JStr ''''), (''judgments'', JArr []), (''solutions'', JArr [])])
   \<and> \<not> convertible (JObj [(''toString'', JNum 1)])
   \<and> analyzeCase (sdk_env ''Sorry, no.'') (JObj [(''toString'', JNum 1)]) =
        (Inl (TypeError ''Cannot convert object to primitive value''), [])
   \<and> fst (processDocument_sdk (rest_env ''Sorry, no.'') ''%PDF'') = None
   \<and> fst (processDocument (rest_env ''Sorry, no.'') ''%PDF'') =
        Inr (JObj [(''summary'', JStr ''AI returned non-JSON (REST). Raw: Sorry, no.''),
                   (''facts'', JStr ''''), (''judgments'', JArr []), (''solutions'', JArr [])])
   \<and> \<not> contains ''```'' ''Sorry, no.'' \<and> \<not> starts_with_space ''Sorry, no.''
   \<and> \<not> ends_with_space ''Sorry, no.''
   \<and> cleaned ''Sorry, no.'' = ''Sorry, no.''
   \<and> to_string (JStr ''facts'') = Inr ''facts''
   \<and> fst (analyzeCase_sdk (rest_env ''Sorry, no.'') ''facts'') = None
   \<and> JSON_parse (rest_env ''Sorry, no.'') (cleaned ''Sorry, no.'') = Inl SyntaxError
   \<and> fst (analyzeCase (rest_env ''Sorry, no.'') (JStr ''facts'')) =
        Inr (JObj [(''summary'', JStr (''Analysis Failed: '' @ e_message SyntaxError)),
                   (''facts'', JStr ''facts''), (''strengths'', JArr []), (''weaknesses'', JArr [])])
   \<and> rest_text (down_env\<lparr>GEMINI_API_KEY := Some ''key''\<rparr>) (TextRequest (swot_prompt ''facts''))
        = Inl unavailable
   \<and> fst (analyzeCase (down_env\<lparr>GEMINI_API_KEY := Some ''key''\<rparr>) (JStr ''facts'')) =
        Inr (JObj [(''summary'', JStr ''Analysis Failed: unavailable''),
                   (''facts'', JStr ''facts''), (''strengths'', JArr []), (''weaknesses'', JArr [])])"
proof -
  let ?R = "''Sorry, no.''"
  let ?D = "down_env\<lparr>GEMINI_API_KEY := Some ''key''\<rparr>"
  let ?bad = "JObj [(''toString'', JNum 1)]"
  have cl: "cleaned ?R = ?R"
    by (simp add: cleaned_def trim_def strip_leading.simps white_space_def)
  have k1: "configured (GEMINI_API_KEY (sdk_env ?R))"
    and k2: "configured (GEMINI_API_KEY (rest_env ?R))"
    and k3: "configured (GEMINI_API_KEY ?D)"
    by (simp_all add: sdk_env_def rest_env_def configured_def)
  have p1: "isl (JSON_parse (sdk_env ?R) (cleaned ?R))"
    and p2: "isl (JSON_parse (rest_env ?R) (cleaned ?R))"
    and p3: "JSON_parse (rest_env ?R) (cleaned ?R) = Inl SyntaxError"
    by (simp_all add: cl sdk_env_def rest_env_def parse_braces_def)
  have s1: "sdk_text (sdk_env ?R) ''gemini-2.0-flash''
              (DocumentRequest ''%PDF'' ''application/pdf'' document_prompt) = Inr ?R"
    by (simp add: sdk_env_def)
  have r1: "rest_text (rest_env ?R) (DocumentRequest ''%PDF'' ''application/pdf'' document_prompt) = Inr ?R"
    and r2: "rest_text (rest_env ?R) (TextRequest (swot_prompt ''facts'')) = Inr ?R"
    and r3: "rest_text ?D (TextRequest (swot_prompt ''facts'')) = Inl unavailable"
    by (simp_all add: rest_env_def down_env_def)
  have f1: "fst (processDocument_sdk (rest_env ?R) ''%PDF'') = None"
    by (simp add: processDocument_sdk_def rest_env_def down_env_def)
  have f2: "fst (analyzeCase_sdk (rest_env ?R) ''facts'') = None"
    by (simp add: analyzeCase_sdk_def rest_env_def down_env_def)
  have f3: "fst (analyzeCase_sdk ?D ''facts'') = None"
    by (simp add: analyzeCase_sdk_def down_env_def)
  have nc: "\<not> convertible ?bad" by simp
  have ts: "to_string (JStr ''facts'') = Inr ''facts''" by (simp add: to_string_def)
  have sp: "\<not> contains ''```'' ?R \<and> \<not> starts_with_space ?R \<and> \<not> ends_with_space ?R"
    by (simp add: starts_with_space_def ends_with_space_def white_space_def suffix_to_prefix)
  have ex: "\<exists>t. rest_text (rest_env ?R) (TextRequest (swot_prompt ''facts'')) = Inr t
                \<and> JSON_parse (rest_env ?R) (cleaned t) = Inl SyntaxError"
    using r2 p3 by (intro exI [of _ ?R] conjI)
  have m1: "or_str (e_response_message SyntaxError) (or_str (Some (e_message SyntaxError)) ''unknown'')
              = e_message SyntaxError"
    and m2: "or_str (e_response_message unavailable) (or_str (Some (e_message unavailable)) ''unknown'')
              = ''unavailable''"
    by (simp_all add: or_str_def SyntaxError_def unavailable_def)
  note A = unparsable_reply_soft_fails [where t = ?R and env = "sdk_env ?R"
             and buffer = "''%PDF''" and facts = ?bad and s = "''facts''" and e = unavailable]
  note B = unparsable_reply_soft_fails [where t = ?R and env = "rest_env ?R"
             and buffer = "''%PDF''" and facts = "JStr ''facts''" and s = "''facts''"
             and e = SyntaxError]
  note C = unparsable_reply_soft_fails [where t = ?R and env = ?D
             and buffer = "''%PDF''" and facts = "JStr ''facts''" and s = "''facts''"
             and e = unavailable]
  have a1: "fst (processDocument (sdk_env ?R) ''%PDF'') =
        Inr (JObj [(''summary'', JStr ''AI returned non-JSON output (SDK). Raw: Sorry, no.''),
                   (''facts'', JStr ''''), (''judgments'', JArr []), (''solutions'', JArr [])])"
    using A k1 p1 s1 cl by simp
  have a2: "analyzeCase (sdk_env ?R) ?bad =
        (Inl (TypeError ''Cannot convert object to primitive value''), [])"
    using A k1 nc by simp
  have b1: "fst (processDocument (rest_env ?R) ''%PDF'') =
        Inr (JObj [(''summary'', JStr ''AI returned non-JSON (REST). Raw: Sorry, no.''),
                   (''facts'', JStr ''''), (''judgments'', JArr []), (''solutions'', JArr [])])"
    using B k2 p2 f1 r1 cl by simp
  have b2: "fst (analyzeCase (rest_env ?R) (JStr ''facts'')) =
        Inr (JObj [(''summary'', JStr (''Analysis Failed: '' @ e_message SyntaxError)),
                   (''facts'', JStr ''facts''), (''strengths'', JArr []), (''weaknesses'', JArr [])])"
    using B k2 ts f2 ex m1 by simp
  have c1: "fst (analyzeCase ?D (JStr ''facts'')) =
        Inr (JObj [(''summary'', JStr ''Analysis Failed: unavailable''),
                   (''facts'', JStr ''facts''), (''strengths'', JArr []), (''weaknesses'', JArr [])])"
    using C k3 ts f3 r3 m2 by simp
  show ?thesis using k1 p1 s1 a1 nc a2 f1 b1 sp cl ts f2 p3 b2 r3 c1 by simp
qed

text \<open>
  Claim C4 as stated fails for a reply with fence markers that does not parse: it is
  reported without the markers, so the summary does not contain the literal reply.
\<close>

theorem unparsable_reply_counterexample:
  "sdk_text (sdk_env ''```json nope ```'') ''gemini-2.0-flash''
      (DocumentRequest ''%PDF'' ''application/pdf'' document_prompt) = Inr ''```json nope ```''
   \<and> isl (JSON_parse (sdk_env ''```json nope ```'') (cleaned ''```json nope ```''))
   \<and> fst (processDocument (sdk_env ''```json nope ```'') ''%PDF'') =
      Inr (JObj [(''summary'', JStr ''AI returned non-JSON output (SDK). Raw: nope''),
                 (''facts'', JStr ''''), (''judgments'', JArr []), (''solutions'', JArr [])])
   \<and> \<not> contains ''```json nope ```'' ''AI returned non-JSON output (SDK). Raw: nope''"
proof -
  have c1: "cleaned ''```json nope ```'' = ''nope''"
    by (simp add: cleaned_def trim_def strip_leading.simps white_space_def)
  have s: "sdk_text (sdk_env ''```json nope ```'') ''gemini-2.0-flash''
      (DocumentRequest ''%PDF'' ''application/pdf'' document_prompt) = Inr ''```json nope ```''"
    by (simp add: sdk_env_def)
  have p: "isl (JSON_parse (sdk_env ''```json nope ```'') (cleaned ''```json nope ```''))"
    by (simp add: c1 sdk_env_def parse_braces_def)
  have a: "fst (processDocument (sdk_env ''```json nope ```'') ''%PDF'') =
      Inr (JObj [(''summary'', JStr ''AI returned non-JSON output (SDK). Raw: nope''),
                 (''facts'', JStr ''''), (''judgments'', JArr []), (''solutions'', JArr [])])"
    by (simp add: processDocument_def processDocument_sdk_def genAI_def sdk_env_def down_env_def
          configured_def c1 parse_braces_def defaultErrorResponse_document_def)
  have c: "\<not> contains ''```json nope ```'' ''AI returned non-JSON output (SDK). Raw: nope''"
    by simp
  from s p a c show ?thesis by simp
qed

section \<open>Registration\<close>

lemma mails_sendMail: "mails (sendMail env to_addr subject msg) = [(to_addr, subject)]"
  by (simp add: sendMail_def mails_def)

lemma mails_sendMail2: "mails (sendMail2 env to_addr subject msg) = [(to_addr, subject)]"
  by (simp add: sendMail2_def mails_def)

lemma writes_sendMail: "writes (sendMail env to_addr subject msg) = []"
  by (simp add: sendMail_def writes_def)

lemma writes_sendMail2: "writes (sendMail2 env to_addr subject msg) = []"
  by (simp add: sendMail2_def writes_def)

lemma mails_append: "mails (xs @ ys) = mails xs @ mails ys"
  by (simp add: mails_def List.map_filter_def)

lemma writes_append: "writes (xs @ ys) = writes xs @ writes ys"
  by (simp add: writes_def List.map_filter_def)

lemma registerUser_live_success:
  assumes "IS_FIREBASE_LIVE env"
    and "js_prop (fst (fst (registerUser env users name email password role))) ''success'' = JBool True"
  shows "\<exists>uid. createUser env email password = Inr uid
           \<and> doc_set env ''users'' (JStr uid) (user_profile env name email role) = None
           \<and> snd (registerUser env users name email password role) =
               [AuthCreateUser email password (Some name),
                DocSet ''users'' (JStr uid) (user_profile env name email role)]
               @ sendMail env (JStr email) ''Welcome to CourtEase'' (welcome_html name role)"
proof (cases "createUser env email password")
  case (Inl e)
  with assms show ?thesis by (simp add: registerUser_def)
next
  case (Inr uid)
  show ?thesis
  proof (cases "doc_set env ''users'' (JStr uid) (user_profile env name email role)")
    case None
    with Inr assms(1) show ?thesis by (simp add: registerUser_def)
  next
    case (Some e)
    with Inr assms show ?thesis by (simp add: registerUser_def)
  qed
qed

lemma register2_live_success:
  assumes "IS_FIREBASE_LIVE env" and "fst (register2 env body) = Responded 200 r"
  shows "\<exists>b email password uid. body = Some b \<and> rb_email b = Some email \<and> rb_password b = Some password
           \<and> createUser env email password = Inr uid
           \<and> snd (register2 env body) =
               [AuthCreateUser email password None,
                DocSet ''users'' (JStr uid) [(''email'', JStr email), (''createdAt'', JServerTimestamp)]]
               @ sendMail2 env (JStr email) ''Welcome to CourtEase!''
                   ''<p>Hello,</p><p>Thank you for registering! Your account has been successfully created.</p>''"
proof (cases body)
  case None
  with assms show ?thesis by (simp add: register2_def)
next
  case (Some b)
  show ?thesis
  proof (cases "configured (rb_email b) \<and> configured (rb_password b)")
    case False
    with Some assms show ?thesis by (auto simp: register2_def)
  next
    case True
    then obtain email password where ep: "rb_email b = Some email" "rb_password b = Some password"
      by (cases "rb_email b"; cases "rb_password b") (auto simp: configured_def)
    show ?thesis
    proof (cases "createUser env email password")
      case (Inl e)
      with Some True ep assms show ?thesis by (simp add: register2_def Let_def)
    next
      case (Inr uid)
      show ?thesis
      proof (cases "doc_set env ''users'' (JStr uid) [(''email'', JStr email), (''createdAt'', JServerTimestamp)]")
        case None
        with Inr Some True ep assms(1) show ?thesis by (simp add: register2_def Let_def)
      next
        case (Some e)
        with Inr \<open>body = Some b\<close> True ep assms show ?thesis by (simp add: register2_def Let_def)
      qed
    qed
  qed
qed

text \<open>
  Claim C2, as amended. In live mode, a registration through \<^verbatim>\<open>registerUser\<close> (first route
  set) that reports success has written exactly one document, the profile of the new user
  with the submitted name, email and role, the creation time and the stats
  \<^verbatim>\<open>{cases: 0, docs: 0}\<close>, and has called \<^verbatim>\<open>sendMail\<close> exactly once, with the welcome
  message to the submitted address. In mock mode \<^verbatim>\<open>registerUser\<close> writes no document and
  sends no mail. A successful registration through the second route set in live mode writes
  a profile with the email and a creation timestamp only, and calls its \<^verbatim>\<open>sendMail\<close>
  exactly once.
\<close>

theorem registration_profile_and_mail:
  "(IS_FIREBASE_LIVE env \<and>
      js_prop (fst (fst (registerUser env users name email password role))) ''success'' = JBool True \<longrightarrow>
      (\<exists>uid. createUser env email password = Inr uid
         \<and> writes (snd (registerUser env users name email password role)) =
             [(''users'', JStr uid,
               [(''name'', JStr name), (''email'', JStr email), (''role'', JStr role),
                (''createdAt'', JStr (toISOString env)),
                (''stats'', JObj [(''cases'', JNum 0), (''docs'', JNum 0)])])])
      \<and> mails (snd (registerUser env users name email password role)) =
             [(JStr email, ''Welcome to CourtEase'')])
   \<and> (\<not> IS_FIREBASE_LIVE env \<longrightarrow>
        snd (registerUser env users name email password role) = [])
   \<and> (IS_FIREBASE_LIVE env \<and> fst (register2 env body) = Responded 200 r \<longrightarrow>
        (\<exists>b e uid. body = Some b \<and> rb_email b = Some e
           \<and> writes (snd (register2 env body)) =
               [(''users'', JStr uid, [(''email'', JStr e), (''createdAt'', JServerTimestamp)])]
           \<and> mails (snd (register2 env body)) = [(JStr e, ''Welcome to CourtEase!'')]))"
proof -
  have a: "IS_FIREBASE_LIVE env \<Longrightarrow>
      js_prop (fst (fst (registerUser env users name email password role))) ''success'' = JBool True \<Longrightarrow>
      (\<exists>uid. createUser env email password = Inr uid
         \<and> writes (snd (registerUser env users name email password role)) =
             [(''users'', JStr uid,
               [(''name'', JStr name), (''email'', JStr email), (''role'', JStr role),
                (''createdAt'', JStr (toISOString env)),
                (''stats'', JObj [(''cases'', JNum 0), (''docs'', JNum 0)])])])
      \<and> mails (snd (registerUser env users name email password role)) =
             [(JStr email, ''Welcome to CourtEase'')]"
  proof -
    assume l: "IS_FIREBASE_LIVE env"
      and s: "js_prop (fst (fst (registerUser env users name email password role))) ''success'' = JBool True"
    from registerUser_live_success [OF l s] obtain uid where
      u: "createUser env email password = Inr uid"
      and t: "snd (registerUser env users name email password role) =
               [AuthCreateUser email password (Some name),
                DocSet ''users'' (JStr uid) (user_profile env name email role)]
               @ sendMail env (JStr email) ''Welcome to CourtEase'' (welcome_html name role)"
      by blast
    have w: "writes (snd (registerUser env users name email password role)) =
             [(''users'', JStr uid, user_profile env name email role)]"
      unfolding t writes_append writes_sendMail by (simp add: writes_def)
    have m: "mails (snd (registerUser env users name email password role)) =
             [(JStr email, ''Welcome to CourtEase'')]"
      unfolding t mails_append mails_sendMail by (simp add: mails_def)
    from u w m show ?thesis by (simp add: user_profile_def)
  qed
  have b: "\<not> IS_FIREBASE_LIVE env \<Longrightarrow> snd (registerUser env users name email password role) = []"
    by (simp add: registerUser_def)
  have c: "IS_FIREBASE_LIVE env \<Longrightarrow> fst (register2 env body) = Responded 200 r \<Longrightarrow>
        (\<exists>b e uid. body = Some b \<and> rb_email b = Some e
           \<and> writes (snd (register2 env body)) =
               [(''users'', JStr uid, [(''email'', JStr e), (''createdAt'', JServerTimestamp)])]
           \<and> mails (snd (register2 env body)) = [(JStr e, ''Welcome to CourtEase!'')])"
  proof -
    assume l: "IS_FIREBASE_LIVE env" and s: "fst (register2 env body) = Responded 200 r"
    from register2_live_success [OF l s] obtain b e p uid where
      bb: "body = Some b" "rb_email b = Some e"
      and t: "snd (register2 env body) =
               [AuthCreateUser e p None,
                DocSet ''users'' (JStr uid) [(''email'', JStr e), (''createdAt'', JServerTimestamp)]]
               @ sendMail2 env (JStr e) ''Welcome to CourtEase!''
                   ''<p>Hello,</p><p>Thank you for registering! Your account has been successfully created.</p>''"
      by blast
    have w: "writes (snd (register2 env body)) =
               [(''users'', JStr uid, [(''email'', JStr e), (''createdAt'', JServerTimestamp)])]"
      unfolding t writes_append writes_sendMail2 by (simp add: writes_def)
    have m: "mails (snd (register2 env body)) = [(JStr e, ''Welcome to CourtEase!'')]"
      unfolding t mails_append mails_sendMail2 by (simp add: mails_def)
    from bb w m show ?thesis by simp
  qed
  from a b c show ?thesis by simp
qed

theorem registration_profile_and_mail_witness:
  "IS_FIREBASE_LIVE writable_env
   \<and> js_prop (fst (fst (registerUser writable_env [] ''Asha'' ''asha@x.in'' ''s3cret'' ''Lawyer''))) ''success''
       = JBool True
   \<and> writes (snd (registerUser writable_env [] ''Asha'' ''asha@x.in'' ''s3cret'' ''Lawyer'')) =
        [(''users'', JStr ''u2'',
          [(''name'', JStr ''Asha''), (''email'', JStr ''asha@x.in''), (''role'', JStr ''Lawyer''),
           (''createdAt'', JStr ''2023-11-14T22:13:20.000Z''),
           (''stats'', JObj [(''cases'', JNum 0), (''docs'', JNum 0)])])]
   \<and> mails (snd (registerUser writable_env [] ''Asha'' ''asha@x.in'' ''s3cret'' ''Lawyer'')) =
        [(JStr ''asha@x.in'', ''Welcome to CourtEase'')]
   \<and> \<not> IS_FIREBASE_LIVE (down_env\<lparr>IS_FIREBASE_LIVE := False\<rparr>)
   \<and> snd (registerUser (down_env\<lparr>IS_FIREBASE_LIVE := False\<rparr>) [] ''Asha'' ''asha@x.in'' ''s3cret'' ''Lawyer'') = []
   \<and> (\<exists>r. fst (register2 writable_env (Some \<lparr>rb_email = Some ''asha@x.in'', rb_password = Some ''s3cret''\<rparr>))
           = Responded 200 r)
   \<and> mails (snd (register2 writable_env (Some \<lparr>rb_email = Some ''asha@x.in'', rb_password = Some ''s3cret''\<rparr>)))
       = [(JStr ''asha@x.in'', ''Welcome to CourtEase!'')]"
proof -
  let ?body = "Some \<lparr>rb_email = Some ''asha@x.in'', rb_password = Some ''s3cret''\<rparr>"
  let ?r = "JObj [(''success'', JBool True), (''userId'', JStr ''u2''),
                  (''message'', JStr ''User registered successfully. Welcome email sent.'')]"
  have live: "IS_FIREBASE_LIVE writable_env"
    by (simp add: writable_env_def down_env_def)
  have mock: "\<not> IS_FIREBASE_LIVE (down_env\<lparr>IS_FIREBASE_LIVE := False\<rparr>)"
    by simp
  have ok: "js_prop (fst (fst (registerUser writable_env [] ''Asha'' ''asha@x.in'' ''s3cret'' ''Lawyer''))) ''success''
       = JBool True"
    by (simp add: registerUser_def writable_env_def down_env_def)
  have ok2: "fst (register2 writable_env ?body) = Responded 200 ?r"
    by (simp add: register2_def writable_env_def down_env_def configured_def Let_def)
  have cu: "createUser writable_env ''asha@x.in'' ''s3cret'' = Inr ''u2''"
    and ts: "toISOString writable_env = ''2023-11-14T22:13:20.000Z''"
    by (simp_all add: writable_env_def down_env_def)
  note A = registration_profile_and_mail [where env = writable_env and users = "[]" and name = "''Asha''"
             and email = "''asha@x.in''" and password = "''s3cret''" and role = "''Lawyer''"
             and body = ?body and r = ?r]
  note B = registration_profile_and_mail [where env = "down_env\<lparr>IS_FIREBASE_LIVE := False\<rparr>"
             and users = "[]" and name = "''Asha''"
             and email = "''asha@x.in''" and password = "''s3cret''" and role = "''Lawyer''"
             and body = ?body and r = ?r]
  from A live ok cu ts have
    w: "writes (snd (registerUser writable_env [] ''Asha'' ''asha@x.in'' ''s3cret'' ''Lawyer'')) =
        [(''users'', JStr ''u2'',
          [(''name'', JStr ''Asha''), (''email'', JStr ''asha@x.in''), (''role'', JStr ''Lawyer''),
           (''createdAt'', JStr ''2023-11-14T22:13:20.000Z''),
           (''stats'', JObj [(''cases'', JNum 0), (''docs'', JNum 0)])])]"
    and m: "mails (snd (registerUser writable_env [] ''Asha'' ''asha@x.in'' ''s3cret'' ''Lawyer'')) =
        [(JStr ''asha@x.in'', ''Welcome to CourtEase'')]"
    by auto
  from A live ok2 have
    m2: "mails (snd (register2 writable_env ?body)) = [(JStr ''asha@x.in'', ''Welcome to CourtEase!'')]"
    by auto
  from B mock have
    n: "snd (registerUser (down_env\<lparr>IS_FIREBASE_LIVE := False\<rparr>) [] ''Asha'' ''asha@x.in'' ''s3cret'' ''Lawyer'') = []"
    by simp
  from live mock ok ok2 w m m2 n show ?thesis by simp
qed

text \<open>
  Claim C2 as stated fails in mock mode, where a registration succeeds without any profile
  document or mail, and on the second route set, whose registration writes a profile that
  has neither \<^verbatim>\<open>role\<close> nor \<^verbatim>\<open>stats\<close>.
\<close>

theorem registration_counterexample:
  "registerUser (down_env\<lparr>IS_FIREBASE_LIVE := False\<rparr>) [] ''Asha'' ''asha@x.in'' ''s3cret'' ''Lawyer'' =
     ((JObj [(''success'', JBool True), (''message'', JStr ''Mock Registered'')],
       [JObj [(''name'', JStr ''Asha''), (''email'', JStr ''asha@x.in''),
              (''password'', JStr ''s3cret''), (''role'', JStr ''Lawyer'')]]),
      [])
   \<and> fst (register2 writable_env (Some \<lparr>rb_email = Some ''asha@x.in'', rb_password = Some ''s3cret''\<rparr>)) =
       Responded 200 (JObj [(''success'', JBool True), (''userId'', JStr ''u2''),
                            (''message'', JStr ''User registered successfully. Welcome email sent.'')])
   \<and> writes (snd (register2 writable_env (Some \<lparr>rb_email = Some ''asha@x.in'', rb_password = Some ''s3cret''\<rparr>))) =
       [(''users'', JStr ''u2'', [(''email'', JStr ''asha@x.in''), (''createdAt'', JServerTimestamp)])]"
  by (simp add: registerUser_def register2_def writable_env_def down_env_def configured_def Let_def
        sendMail2_def writes_def)

section \<open>Case creation\<close>





section \<open>Status updates\<close>

lemma case_update_mock:
  "\<not> IS_FIREBASE_LIVE env \<Longrightarrow>
     case_update mail env caseId upd subject html =
       (Responded 200 (JObj [(''success'', JBool True), (''message'', JStr ''Mock Mode'')]), [])"
  by (simp add: case_update_def)

lemma case_update_first_call:
  "IS_FIREBASE_LIVE env \<Longrightarrow>
     \<exists>rest. snd (case_update mail env caseId upd subject html) = DocUpdate ''cases'' (JStr caseId) upd # rest"
  by (simp add: case_update_def split: option.split sum.split)

lemma case_update_live:
  assumes "IS_FIREBASE_LIVE env"
    and "doc_update env ''cases'' (JStr caseId) upd = None"
    and "doc_get env ''cases'' (JStr caseId) = Inr caseDoc"
    and "doc_get env ''users'' (opt_prop caseDoc ''userId'') = Inr userDoc"
  shows "case_update mail env caseId upd subject html =
           (Responded 200 (JObj [(''success'', JBool True)]),
            [DocUpdate ''cases'' (JStr caseId) upd, DocGet ''cases'' (JStr caseId),
             DocGet ''users'' (opt_prop caseDoc ''userId'')]
            @ (if truthy (opt_prop userDoc ''email'')
               then mail (opt_prop userDoc ''email'') subject html else []))"
  using assms by (simp add: case_update_def)

lemma mails_Cons:
  "mails (e # tr) = (case mail_of e of None \<Rightarrow> mails tr | Some m \<Rightarrow> m # mails tr)"
  by (cases "mail_of e") (simp_all add: mails_def)

lemma mails_Nil: "mails [] = []"
  by (simp add: mails_def)

text \<open>
  Claim C7, as amended. \<^verbatim>\<open>POST /api/cases/update-status\<close> accepts every string as status,
  without validation. In mock mode it answers \<^verbatim>\<open>success: true\<close> and does nothing else. In live
  mode its first call is the partial update \<^verbatim>\<open>{status}\<close> of the case with exactly the
  submitted string; when the update and the reads of the case and of the owner's profile
  succeed, it answers \<^verbatim>\<open>success: true\<close>, and it calls \<^verbatim>\<open>sendMail\<close> once, to the email of
  the owner's profile with a message that names the case and the new status, exactly when
  that profile has a truthy \<^verbatim>\<open>email\<close>. The handler of the second route set does the same
  with its own \<^verbatim>\<open>sendMail\<close>.
\<close>

theorem update_status_any_string:
  "(\<not> IS_FIREBASE_LIVE env \<longrightarrow>
      update_status env caseId status =
        (Responded 200 (JObj [(''success'', JBool True), (''message'', JStr ''Mock Mode'')]), [])
      \<and> update_status2 env caseId status =
        (Responded 200 (JObj [(''success'', JBool True), (''message'', JStr ''Mock Mode'')]), []))
   \<and> (IS_FIREBASE_LIVE env \<longrightarrow>
        (\<exists>rest. snd (update_status env caseId status) =
                  DocUpdate ''cases'' (JStr caseId) [(''status'', JStr status)] # rest)
        \<and> (\<exists>rest. snd (update_status2 env caseId status) =
                  DocUpdate ''cases'' (JStr caseId) [(''status'', JStr status)] # rest))
   \<and> (IS_FIREBASE_LIVE env
        \<and> doc_update env ''cases'' (JStr caseId) [(''status'', JStr status)] = None
        \<and> doc_get env ''cases'' (JStr caseId) = Inr caseDoc
        \<and> doc_get env ''users'' (opt_prop caseDoc ''userId'') = Inr userDoc \<longrightarrow>
        update_status env caseId status =
          (Responded 200 (JObj [(''success'', JBool True)]),
           [DocUpdate ''cases'' (JStr caseId) [(''status'', JStr status)], DocGet ''cases'' (JStr caseId),
            DocGet ''users'' (opt_prop caseDoc ''userId'')]
           @ (if truthy (opt_prop userDoc ''email'')
              then sendMail env (opt_prop userDoc ''email'') ''Case Update: Status Changed''
                     (''<p>The status for your case (<b>'' @ caseId @ ''</b>) has been updated to <b>''
                      @ status @ ''</b>.</p>'')
              else []))
        \<and> mails (snd (update_status env caseId status)) =
            (if truthy (opt_prop userDoc ''email'')
             then [(opt_prop userDoc ''email'', ''Case Update: Status Changed'')] else [])
        \<and> fst (update_status2 env caseId status) = Responded 200 (JObj [(''success'', JBool True)])
        \<and> mails (snd (update_status2 env caseId status)) =
            (if truthy (opt_prop userDoc ''email'')
             then [(opt_prop userDoc ''email'', ''Case Update: Status Changed'')] else []))"
proof -
  have a: "\<not> IS_FIREBASE_LIVE env \<Longrightarrow>
      update_status env caseId status =
        (Responded 200 (JObj [(''success'', JBool True), (''message'', JStr ''Mock Mode'')]), [])
      \<and> update_status2 env caseId status =
        (Responded 200 (JObj [(''success'', JBool True), (''message'', JStr ''Mock Mode'')]), [])"
    by (simp add: update_status_def update_status2_def case_update_mock)
  have b: "IS_FIREBASE_LIVE env \<Longrightarrow>
        (\<exists>rest. snd (update_status env caseId status) =
                  DocUpdate ''cases'' (JStr caseId) [(''status'', JStr status)] # rest)
        \<and> (\<exists>rest. snd (update_status2 env caseId status) =
                  DocUpdate ''cases'' (JStr caseId) [(''status'', JStr status)] # rest)"
    unfolding update_status_def update_status2_def
    using case_update_first_call [of env "sendMail env" caseId "[(''status'', JStr status)]"]
      case_update_first_call [of env "sendMail2 env" caseId "[(''status'', JStr status)]"]
    by simp
  have c: "IS_FIREBASE_LIVE env \<Longrightarrow>
        doc_update env ''cases'' (JStr caseId) [(''status'', JStr status)] = None \<Longrightarrow>
        doc_get env ''cases'' (JStr caseId) = Inr caseDoc \<Longrightarrow>
        doc_get env ''users'' (opt_prop caseDoc ''userId'') = Inr userDoc \<Longrightarrow>
        update_status env caseId status =
          (Responded 200 (JObj [(''success'', JBool True)]),
           [DocUpdate ''cases'' (JStr caseId) [(''status'', JStr status)], DocGet ''cases'' (JStr caseId),
            DocGet ''users'' (opt_prop caseDoc ''userId'')]
           @ (if truthy (opt_prop userDoc ''email'')
              then sendMail env (opt_prop userDoc ''email'') ''Case Update: Status Changed''
                     (''<p>The status for your case (<b>'' @ caseId @ ''</b>) has been updated to <b>''
                      @ status @ ''</b>.</p>'')
              else []))"
    by (simp add: update_status_def status_html_def case_update_live)
  have c2: "IS_FIREBASE_LIVE env \<Longrightarrow>
        doc_update env ''cases'' (JStr caseId) [(''status'', JStr status)] = None \<Longrightarrow>
        doc_get env ''cases'' (JStr caseId) = Inr caseDoc \<Longrightarrow>
        doc_get env ''users'' (opt_prop caseDoc ''userId'') = Inr userDoc \<Longrightarrow>
        update_status2 env caseId status =
          (Responded 200 (JObj [(''success'', JBool True)]),
           [DocUpdate ''cases'' (JStr caseId) [(''status'', JStr status)], DocGet ''cases'' (JStr caseId),
            DocGet ''users'' (opt_prop caseDoc ''userId'')]
           @ (if truthy (opt_prop userDoc ''email'')
              then sendMail2 env (opt_prop userDoc ''email'') ''Case Update: Status Changed''
                     (status_html caseId status)
              else []))"
    by (simp add: update_status2_def case_update_live)
  have d: "IS_FIREBASE_LIVE env \<Longrightarrow>
        doc_update env ''cases'' (JStr caseId) [(''status'', JStr status)] = None \<Longrightarrow>
        doc_get env ''cases'' (JStr caseId) = Inr caseDoc \<Longrightarrow>
        doc_get env ''users'' (opt_prop caseDoc ''userId'') = Inr userDoc \<Longrightarrow>
        mails (snd (update_status env caseId status)) =
            (if truthy (opt_prop userDoc ''email'')
             then [(opt_prop userDoc ''email'', ''Case Update: Status Changed'')] else [])"
    by (simp add: c mails_Cons mails_Nil mails_sendMail)
  have d2: "IS_FIREBASE_LIVE env \<Longrightarrow>
        doc_update env ''cases'' (JStr caseId) [(''status'', JStr status)] = None \<Longrightarrow>
        doc_get env ''cases'' (JStr caseId) = Inr caseDoc \<Longrightarrow>
        doc_get env ''users'' (opt_prop caseDoc ''userId'') = Inr userDoc \<Longrightarrow>
        fst (update_status2 env caseId status) = Responded 200 (JObj [(''success'', JBool True)])
        \<and> mails (snd (update_status2 env caseId status)) =
            (if truthy (opt_prop userDoc ''email'')
             then [(opt_prop userDoc ''email'', ''Case Update: Status Changed'')] else [])"
    by (simp add: c2 mails_Cons mails_Nil mails_sendMail2)
  from a b c d d2 show ?thesis by simp
qed

theorem update_status_any_string_witness:
  "IS_FIREBASE_LIVE (case_env (Some (JObj [(''email'', JStr ''asha@x.in'')])))
   \<and> doc_update (case_env (Some (JObj [(''email'', JStr ''asha@x.in'')]))) ''cases'' (JStr ''CASE-1'')
        [(''status'', JStr ''Pending review by the registrar'')] = None
   \<and> update_status (case_env (Some (JObj [(''email'', JStr ''asha@x.in'')]))) ''CASE-1''
        ''Pending review by the registrar'' =
       (Responded 200 (JObj [(''success'', JBool True)]),
        [DocUpdate ''cases'' (JStr ''CASE-1'') [(''status'', JStr ''Pending review by the registrar'')],
         DocGet ''cases'' (JStr ''CASE-1''), DocGet ''users'' (JStr ''u1''),
         MailerSendMail (JStr ''asha@x.in'') ''Case Update: Status Changed''
           ''<p>The status for your case (<b>CASE-1</b>) has been updated to <b>Pending review by the registrar</b>.</p>''])
   \<and> \<not> IS_FIREBASE_LIVE (down_env\<lparr>IS_FIREBASE_LIVE := False\<rparr>)
   \<and> update_status (down_env\<lparr>IS_FIREBASE_LIVE := False\<rparr>) ''CASE-1'' ''Pending review by the registrar'' =
       (Responded 200 (JObj [(''success'', JBool True), (''message'', JStr ''Mock Mode'')]), [])"
proof -
  let ?E = "case_env (Some (JObj [(''email'', JStr ''asha@x.in'')]))"
  let ?caseDoc = "Some (JObj [(''caseId'', JStr ''CASE-1''), (''userId'', JStr ''u1''),
                             (''status'', JStr ''Submitted'')])"
  let ?userDoc = "Some (JObj [(''email'', JStr ''asha@x.in'')])"
  have live: "IS_FIREBASE_LIVE ?E"
    and upd: "doc_update ?E ''cases'' (JStr ''CASE-1'') [(''status'', JStr ''Pending review by the registrar'')] = None"
    and g1: "doc_get ?E ''cases'' (JStr ''CASE-1'') = Inr ?caseDoc"
    by (simp_all add: case_env_def writable_env_def down_env_def)
  have owner: "opt_prop ?caseDoc ''userId'' = JStr ''u1''"
    and mail: "opt_prop ?userDoc ''email'' = JStr ''asha@x.in''"
    by (simp_all add: opt_prop_def)
  have g2: "doc_get ?E ''users'' (opt_prop ?caseDoc ''userId'') = Inr ?userDoc"
    unfolding owner by (simp add: case_env_def writable_env_def down_env_def)
  have sm: "sendMail ?E (JStr ''asha@x.in'') ''Case Update: Status Changed'' h =
              [MailerSendMail (JStr ''asha@x.in'') ''Case Update: Status Changed'' h]" for h
    by (simp add: sendMail_def case_env_def configured_def)
  have mock: "\<not> IS_FIREBASE_LIVE (down_env\<lparr>IS_FIREBASE_LIVE := False\<rparr>)" by simp
  note A = update_status_any_string [where env = ?E and caseId = "''CASE-1''"
             and status = "''Pending review by the registrar''" and caseDoc = ?caseDoc and userDoc = ?userDoc]
  note B = update_status_any_string [where env = "down_env\<lparr>IS_FIREBASE_LIVE := False\<rparr>"
             and caseId = "''CASE-1''"
             and status = "''Pending review by the registrar''" and caseDoc = ?caseDoc and userDoc = ?userDoc]
  from A live upd g1 g2 have
    r: "update_status ?E ''CASE-1'' ''Pending review by the registrar'' =
       (Responded 200 (JObj [(''success'', JBool True)]),
        [DocUpdate ''cases'' (JStr ''CASE-1'') [(''status'', JStr ''Pending review by the registrar'')],
         DocGet ''cases'' (JStr ''CASE-1''), DocGet ''users'' (JStr ''u1''),
         MailerSendMail (JStr ''asha@x.in'') ''Case Update: Status Changed''
           ''<p>The status for your case (<b>CASE-1</b>) has been updated to <b>Pending review by the registrar</b>.</p>''])"
    by (simp add: owner mail sm)
  from B mock have
    m: "update_status (down_env\<lparr>IS_FIREBASE_LIVE := False\<rparr>) ''CASE-1'' ''Pending review by the registrar'' =
       (Responded 200 (JObj [(''success'', JBool True), (''message'', JStr ''Mock Mode'')]), [])"
    by simp
  from live upd r mock m show ?thesis by simp
qed

text \<open>
  Claim C7 as stated fails where the owner of the case has no profile document (or a profile
  without email): the status is updated and the answer is \<^verbatim>\<open>success: true\<close>, but no
  notification is attempted. It also fails in mock mode, where nothing is updated.
\<close>

theorem update_status_no_notification_counterexample:
  "update_status (case_env None) ''CASE-1'' ''Closed'' =
     (Responded 200 (JObj [(''success'', JBool True)]),
      [DocUpdate ''cases'' (JStr ''CASE-1'') [(''status'', JStr ''Closed'')],
       DocGet ''cases'' (JStr ''CASE-1''), DocGet ''users'' (JStr ''u1'')])
   \<and> mails (snd (update_status (case_env None) ''CASE-1'' ''Closed'')) = []
   \<and> update_status (down_env\<lparr>IS_FIREBASE_LIVE := False\<rparr>) ''CASE-1'' ''Closed'' =
       (Responded 200 (JObj [(''success'', JBool True), (''message'', JStr ''Mock Mode'')]), [])"
  by (simp add: update_status_def case_update_def case_env_def writable_env_def down_env_def
        opt_prop_def mails_def)

section \<open>External calls per request\<close>

text \<open>The operations below are all the functions and handlers that call an external
  service. The routes of lines 469-483 wrap one call of \<^verbatim>\<open>registerUser\<close>, \<^verbatim>\<open>loginUser\<close>,
  \<^verbatim>\<open>updateUserProfile\<close>, \<^verbatim>\<open>searchJudgments\<close>, \<^verbatim>\<open>analyzeCase\<close>, \<^verbatim>\<open>chatAI\<close> or
  \<^verbatim>\<open>processDocument\<close>; the page routes call no service.\<close>

lemma sites_sendMail: "map call_site (sendMail env to_addr subject msg) = [(''sendMail'', [])]"
  by (simp add: sendMail_def)

lemma sites_sendMail2: "map call_site (sendMail2 env to_addr subject msg) = [(''sendMail'', [])]"
  by (simp add: sendMail2_def)

lemma sites_registerUser: "distinct (map call_site (snd (registerUser env users name email password role)))"
  by (simp add: registerUser_def sites_sendMail split: sum.split option.split)

lemma sites_loginUser: "distinct (map call_site (snd (loginUser env users email password)))"
  by (simp add: loginUser_def split: sum.split option.split)

lemma sites_updateUserProfile: "distinct (map call_site (snd (updateUserProfile env uid data)))"
  by (simp add: updateUserProfile_def split: option.split)

lemma sites_searchJudgments: "distinct (map call_site (snd (searchJudgments env query)))"
  by (simp add: searchJudgments_def split: sum.split option.split)

lemma sites_processDocument: "distinct (map call_site (snd (processDocument env buffer)))"
  by (simp add: processDocument_def processDocument_sdk_def processDocument_rest_def
        split: sum.split)

lemma sites_chatAI: "distinct (map call_site (snd (chatAI env msg)))"
  by (simp add: chatAI_def split: sum.split)

lemma sites_analyzeCase: "distinct (map call_site (snd (analyzeCase env text)))"
  by (simp add: analyzeCase_def analyzeCase_sdk_def analyzeCase_rest_def split: sum.split)

lemma sites_saveCaseToDB: "distinct (map call_site (snd (saveCaseToDB env userId caseData)))"
  by (simp add: saveCaseToDB_def split: option.split)

lemma sites_save_case: "distinct (map call_site (snd (save_case env userId email data)))"
  by (simp add: save_case_def saveCaseToDB_def sites_sendMail split: option.split)

lemma sites_get_cases: "distinct (map call_site (snd (get_cases env userId)))"
  by (simp add: get_cases_def split: sum.split)

lemma sites_all_cases: "distinct (map call_site (snd (all_cases env)))"
  by (simp add: all_cases_def split: sum.split)

lemma sites_add_note: "distinct (map call_site (snd (add_note env caseId note)))"
  by (simp add: add_note_def split: option.split)

lemma sites_case_update:
  assumes "\<And>a. map call_site (mail a subject html) = [(''sendMail'', [])]"
  shows "distinct (map call_site (snd (case_update mail env caseId upd subject html)))"
  using assms by (simp add: case_update_def split: sum.split option.split)

lemma sites_update_hearing: "distinct (map call_site (snd (update_hearing env caseId hearingDate)))"
  unfolding update_hearing_def by (rule sites_case_update) (rule sites_sendMail)

lemma sites_update_status: "distinct (map call_site (snd (update_status env caseId status)))"
  unfolding update_status_def by (rule sites_case_update) (rule sites_sendMail)

lemma sites_update_hearing2: "distinct (map call_site (snd (update_hearing2 env caseId hearingDate)))"
  unfolding update_hearing2_def by (rule sites_case_update) (rule sites_sendMail2)

lemma sites_update_status2: "distinct (map call_site (snd (update_status2 env caseId status)))"
  unfolding update_status2_def by (rule sites_case_update) (rule sites_sendMail2)

lemma sites_register2: "distinct (map call_site (snd (register2 env body)))"
  by (simp add: register2_def Let_def sites_sendMail2 split: sum.split option.split)

lemma sites_login2: "distinct (map call_site (snd (login2 env body)))"
  by (simp add: login2_def split: sum.split)

lemma sites_verifyToken:
  "map call_site (snd (verifyToken env authorization)) = []
   \<or> map call_site (snd (verifyToken env authorization)) = [(''verifyIdToken'', [])]"
  by (simp add: verifyToken_def split: sum.split option.split)

lemma sites_with_verifyToken:
  assumes "\<And>user. distinct (map call_site (snd (handler user)))"
    and "\<And>user. \<forall>e \<in> set (snd (handler user)). call_site e \<noteq> (''verifyIdToken'', [])"
  shows "distinct (map call_site (snd (with_verifyToken env authorization handler)))"
proof (cases "verifyToken env authorization")
  case (Pair r tr)
  with sites_verifyToken [of env authorization]
  have tr: "map call_site tr = [] \<or> map call_site tr = [(''verifyIdToken'', [])]" by simp
  show ?thesis
  proof (cases r)
    case (Inl response)
    with Pair tr show ?thesis by (auto simp: with_verifyToken_def)
  next
    case (Inr user)
    with Pair tr assms [of user] show ?thesis by (force simp: with_verifyToken_def)
  qed
qed

lemma sites_analyze_document_handler:
  "distinct (map call_site (snd (analyze_document_handler env user upload)))
   \<and> (\<forall>e \<in> set (snd (analyze_document_handler env user upload)). call_site e \<noteq> (''verifyIdToken'', []))"
  by (simp add: analyze_document_handler_def split: sum.split option.split prod.split)

lemma sites_legal_research_handler:
  "distinct (map call_site (snd (legal_research_handler env query)))
   \<and> (\<forall>e \<in> set (snd (legal_research_handler env query)). call_site e \<noteq> (''verifyIdToken'', []))"
  by (simp add: legal_research_handler_def split: sum.split option.split)

lemma sites_cases_handler:
  "distinct (map call_site (snd (cases_handler env user)))
   \<and> (\<forall>e \<in> set (snd (cases_handler env user)). call_site e \<noteq> (''verifyIdToken'', []))"
  by (simp add: cases_handler_def split: sum.split)

lemma sites_analyze_document2:
  "distinct (map call_site (snd (analyze_document2 env authorization upload)))"
  unfolding analyze_document2_def
  by (rule sites_with_verifyToken) (simp_all add: sites_analyze_document_handler)

lemma sites_legal_research2:
  "distinct (map call_site (snd (legal_research2 env authorization query)))"
  unfolding legal_research2_def
  by (rule sites_with_verifyToken) (simp_all add: sites_legal_research_handler)

lemma sites_cases2: "distinct (map call_site (snd (cases2 env authorization)))"
  unfolding cases2_def
  by (rule sites_with_verifyToken) (simp_all add: sites_cases_handler)

lemma ai_calls_processDocument:
  "calls_to AI (snd (processDocument env buffer)) =
     (if configured (GEMINI_API_KEY env)
      then (if fst (processDocument_sdk env buffer) = None then 2 else 1) else 0)"
  by (simp add: calls_to_def processDocument_def processDocument_sdk_def processDocument_rest_def
        genAI_def split: sum.split)

lemma ai_calls_analyzeCase:
  "calls_to AI (snd (analyzeCase env text)) =
     (if configured (GEMINI_API_KEY env) \<and> convertible text
      then (if fst (analyzeCase_sdk env (js_String text)) = None then 2 else 1) else 0)"
  by (simp add: calls_to_def analyzeCase_def analyzeCase_sdk_def analyzeCase_rest_def
        to_string_def genAI_def split: sum.split)

lemma ai_calls_chatAI:
  "calls_to AI (snd (chatAI env msg)) =
     (if configured (GEMINI_API_KEY env) \<and> convertible msg
      then (if isl (sdk_text env ''gemini-2.0-flash'' (TextRequest (chat_prompt (js_String msg))))
            then 2 else 1)
      else 0)"
  by (simp add: calls_to_def chatAI_def to_string_def genAI_def split: sum.split)

text \<open>
  Claim C5, as amended. While it handles one request, no operation executes a call site
  twice: no external call is repeated or retried. The three AI operations call the model
  through the SDK once and, only when that attempt gives no result (the call throws; in
  \<^verbatim>\<open>processDocument\<close> also when the reply has no text; in \<^verbatim>\<open>analyzeCase\<close> also when the reply
  does not parse), call the same model a second time through its REST endpoint: the model
  is attempted once or twice per request, and not at all when the key is missing or, in
  \<^verbatim>\<open>chatAI\<close> and \<^verbatim>\<open>analyzeCase\<close>, when the submitted value cannot be converted to a string
  for the prompt.
\<close>

theorem no_call_site_twice:
  "distinct (map call_site (snd (registerUser env users name email password role)))
   \<and> distinct (map call_site (snd (loginUser env users email password)))
   \<and> distinct (map call_site (snd (updateUserProfile env uid data)))
   \<and> distinct (map call_site (snd (searchJudgments env query)))
   \<and> distinct (map call_site (snd (processDocument env buffer)))
   \<and> distinct (map call_site (snd (chatAI env msg)))
   \<and> distinct (map call_site (snd (analyzeCase env facts)))
   \<and> distinct (map call_site (snd (saveCaseToDB env userId caseData)))
   \<and> distinct (map call_site (snd (save_case env userId to_addr caseData)))
   \<and> distinct (map call_site (snd (get_cases env userId)))
   \<and> distinct (map call_site (snd (all_cases env)))
   \<and> distinct (map call_site (snd (add_note env caseId note)))
   \<and> distinct (map call_site (snd (update_hearing env caseId hearingDate)))
   \<and> distinct (map call_site (snd (update_status env caseId status)))
   \<and> distinct (map call_site (snd (register2 env body)))
   \<and> distinct (map call_site (snd (login2 env credentials)))
   \<and> distinct (map call_site (snd (analyze_document2 env authorization upload)))
   \<and> distinct (map call_site (snd (legal_research2 env authorization query)))
   \<and> distinct (map call_site (snd (cases2 env authorization)))
   \<and> distinct (map call_site (snd (update_hearing2 env caseId hearingDate)))
   \<and> distinct (map call_site (snd (update_status2 env caseId status)))
   \<and> calls_to AI (snd (processDocument env buffer)) =
        (if configured (GEMINI_API_KEY env)
         then (if fst (processDocument_sdk env buffer) = None then 2 else 1) else 0)
   \<and> calls_to AI (snd (analyzeCase env facts)) =
        (if configured (GEMINI_API_KEY env) \<and> convertible facts
         then (if fst (analyzeCase_sdk env (js_String facts)) = None then 2 else 1) else 0)
   \<and> calls_to AI (snd (chatAI env msg)) =
        (if configured (GEMINI_API_KEY env) \<and> convertible msg
         then (if isl (sdk_text env ''gemini-2.0-flash'' (TextRequest (chat_prompt (js_String msg))))
               then 2 else 1)
         else 0)"
  by (intro conjI sites_registerUser sites_loginUser sites_updateUserProfile sites_searchJudgments
        sites_processDocument sites_chatAI sites_analyzeCase sites_saveCaseToDB sites_save_case
        sites_get_cases sites_all_cases sites_add_note sites_update_hearing sites_update_status
        sites_register2 sites_login2 sites_analyze_document2 sites_legal_research2 sites_cases2
        sites_update_hearing2 sites_update_status2 ai_calls_processDocument ai_calls_analyzeCase
        ai_calls_chatAI)

theorem no_call_site_twice_witness:
  "distinct (map call_site (snd (processDocument (both_env ''{}'') ''%PDF'')))
   \<and> calls_to AI (snd (processDocument (both_env ''{}'') ''%PDF'')) = 1
   \<and> snd (processDocument (both_env ''{}'') ''%PDF'') = [GeminiSdk ''gemini-2.0-flash'']"
proof -
  have k: "configured (GEMINI_API_KEY (both_env ''{}''))"
    by (simp add: both_env_def configured_def)
  have c: "cleaned ''{}'' = ''{}''"
    by (simp add: cleaned_def trim_def strip_leading.simps white_space_def)
  have s: "processDocument_sdk (both_env ''{}'') ''%PDF'' = (Some (JObj []), [GeminiSdk ''gemini-2.0-flash''])"
    by (simp add: processDocument_sdk_def genAI_def both_env_def configured_def c parse_braces_def)
  have t: "snd (processDocument (both_env ''{}'') ''%PDF'') = [GeminiSdk ''gemini-2.0-flash'']"
    by (simp add: processDocument_def k s)
  note A = no_call_site_twice [where env = "both_env ''{}''" and buffer = "''%PDF''"]
  from A k s t show ?thesis by simp
qed

text \<open>
  Claim C5 as stated fails for the AI operations: when the SDK attempt throws, the model is
  called a second time within the same request.
\<close>

theorem second_model_call_counterexample:
  "snd (processDocument (rest_env ''{}'') ''%PDF'') =
     [GeminiSdk ''gemini-2.0-flash'', GeminiRest ''gemini-2.0-flash'']
   \<and> calls_to AI (snd (processDocument (rest_env ''{}'') ''%PDF'')) = 2
   \<and> snd (chatAI (rest_env ''{}'') (JStr ''hello'')) =
     [GeminiSdk ''gemini-2.0-flash'', GeminiRest ''gemini-2.0-flash'']"
proof -
  have c: "cleaned ''{}'' = ''{}''"
    by (simp add: cleaned_def trim_def strip_leading.simps white_space_def)
  show ?thesis
    by (simp add: processDocument_def processDocument_sdk_def processDocument_rest_def chatAI_def
          to_string_def genAI_def rest_env_def down_env_def configured_def c parse_braces_def
          calls_to_def)
qed

end
